theory Spec2Isabelle
  imports Complex_Main "HOL-Library.Char_ord" "HOL-Library.List_Lexorder"
begin

section \<open>Python values, dictionaries and errors\<close>

text \<open>
  The workflow passes transactions and customers around as Python dictionaries with
  string keys.  A dictionary is an association list (\<open>map_of\<close> reads the first
  binding of a key); a float is a real number (NaN and the infinities are not
  modelled).  A \<open>datetime\<close> is a flag and a number of microseconds: the flag says
  whether the value is offset-aware; the number is the instant in UTC for an aware
  value and the wall-clock reading for a naive one.
\<close>

datatype pyval =
    PyNone
  | PyBool bool
  | PyInt int
  | PyFloat real
  | PyStr string
  | PyDatetime bool int
  | PyList "pyval list"
  | PyDict "(string \<times> pyval) list"

type_synonym pydict = "(string \<times> pyval) list"

datatype py_error = TypeError | ValueError | AttributeError | KeyError | LLMError

text \<open>
  Library functions whose results the source only consumes: parsing a string as a
  float, as an int, as an ISO date (awareness and microseconds), and \<open>str()\<close> of a
  value.
\<close>

record pyrt =
  float_of_str :: "string \<Rightarrow> real option"
  int_of_str :: "string \<Rightarrow> int option"
  fromisoformat :: "string \<Rightarrow> (bool \<times> int) option"
  str_of :: "pyval \<Rightarrow> string"

definition ebind :: "'e + 'a \<Rightarrow> ('a \<Rightarrow> 'e + 'b) \<Rightarrow> 'e + 'b" where
  "ebind m f = (case m of Inl e \<Rightarrow> Inl e | Inr x \<Rightarrow> f x)"

text \<open>\<open>d.get(k, default)\<close> and \<open>d.get(k)\<close>.\<close>

definition dict_get :: "pydict \<Rightarrow> string \<Rightarrow> pyval \<Rightarrow> pyval" where
  "dict_get d k dflt = (case map_of d k of None \<Rightarrow> dflt | Some v \<Rightarrow> v)"

definition dict_get0 :: "pydict \<Rightarrow> string \<Rightarrow> pyval" where
  "dict_get0 d k = dict_get d k PyNone"

text \<open>\<open>k in d\<close>.\<close>

definition has_key :: "pydict \<Rightarrow> string \<Rightarrow> bool" where
  "has_key d k = (map_of d k \<noteq> None)"

text \<open>\<open>float(v)\<close>, \<open>int(v)\<close> and the truth value of \<open>v\<close>.\<close>

fun py_float :: "pyrt \<Rightarrow> pyval \<Rightarrow> py_error + real" where
  "py_float rt (PyFloat r) = Inr r"
| "py_float rt (PyInt i) = Inr (of_int i)"
| "py_float rt (PyBool b) = Inr (if b then 1 else 0)"
| "py_float rt (PyStr s) = (case float_of_str rt s of None \<Rightarrow> Inl ValueError | Some r \<Rightarrow> Inr r)"
| "py_float rt v = Inl TypeError"

fun py_int :: "pyrt \<Rightarrow> pyval \<Rightarrow> py_error + int" where
  "py_int rt (PyInt i) = Inr i"
| "py_int rt (PyFloat r) = Inr (if r < 0 then - \<lfloor>- r\<rfloor> else \<lfloor>r\<rfloor>)"
| "py_int rt (PyBool b) = Inr (if b then 1 else 0)"
| "py_int rt (PyStr s) = (case int_of_str rt s of None \<Rightarrow> Inl ValueError | Some i \<Rightarrow> Inr i)"
| "py_int rt v = Inl TypeError"

fun py_truthy :: "pyval \<Rightarrow> bool" where
  "py_truthy PyNone = False"
| "py_truthy (PyBool b) = b"
| "py_truthy (PyInt i) = (i \<noteq> 0)"
| "py_truthy (PyFloat r) = (r \<noteq> 0)"
| "py_truthy (PyStr s) = (s \<noteq> [])"
| "py_truthy (PyDatetime aware t) = True"
| "py_truthy (PyList xs) = (xs \<noteq> [])"
| "py_truthy (PyDict d) = (d \<noteq> [])"

text \<open>A number as a real, for comparisons between numbers.\<close>

fun py_num :: "pyval \<Rightarrow> real option" where
  "py_num (PyFloat r) = Some r"
| "py_num (PyInt i) = Some (of_int i)"
| "py_num (PyBool b) = Some (if b then 1 else 0)"
| "py_num v = None"

text \<open>\<open>v < c\<close> and \<open>v > c\<close> for a numeric constant \<open>c\<close>: a TypeError unless \<open>v\<close> is a number.\<close>

definition py_lt_num :: "pyval \<Rightarrow> real \<Rightarrow> py_error + bool" where
  "py_lt_num v c = (case py_num v of None \<Rightarrow> Inl TypeError | Some x \<Rightarrow> Inr (x < c))"

definition py_gt_num :: "pyval \<Rightarrow> real \<Rightarrow> py_error + bool" where
  "py_gt_num v c = (case py_num v of None \<Rightarrow> Inl TypeError | Some x \<Rightarrow> Inr (x > c))"

text \<open>\<open>sub in s\<close> on strings.\<close>

fun str_in :: "string \<Rightarrow> string \<Rightarrow> bool" where
  "str_in sub [] = (sub = [])"
| "str_in sub (c # cs) = (take (length sub) (c # cs) = sub \<or> str_in sub cs)"

text \<open>\<open>v in xs\<close> for a list \<open>xs\<close> of strings: only an equal string is a member.\<close>

fun in_strs :: "pyval \<Rightarrow> string list \<Rightarrow> bool" where
  "in_strs (PyStr s) xs = (s \<in> set xs)"
| "in_strs v xs = False"

section \<open>Configuration\<close>

definition HIGH_RISK_COUNTRIES :: "string list" where
  "HIGH_RISK_COUNTRIES = [''AF'', ''IR'', ''KP'', ''SY'', ''VE'', ''CU'', ''BY'', ''MM'', ''ZW'', ''RU'']"

definition TAX_HAVENS :: "string list" where
  "TAX_HAVENS = [''KY'', ''VG'', ''BM'', ''PA'', ''MT'', ''AE'', ''LI'', ''MC'', ''AN'']"

definition SANCTIONED_ENTITIES :: "string list" where
  "SANCTIONED_ENTITIES = [''narcotics_cartel_xyz'', ''terror_group_abc'',
     ''sanctioned_russian_bank'', ''hezbollah_front_company'', ''isis_financial_network'']"

definition DARKNET_MARKETS :: "string list" where
  "DARKNET_MARKETS = [''AlphaMarket'', ''Dark0d3'', ''Hydra'', ''Silk_Road_Reborn'', ''Dream_Market'']"

definition HIGH_RISK_BANKS :: "string list" where
  "HIGH_RISK_BANKS = [''03208'', ''03209'', ''0211050'', ''0245335'']"

definition CTR_THRESHOLD :: real where
  "CTR_THRESHOLD = 10000"

section \<open>The investigation state\<close>

text \<open>
  The fields of \<open>AMLState\<close> that a stage or a router reads or writes.  The narrative
  texts kept under \<open>llm_analysis\<close> and the bookkeeping fields no stage touches are left
  out.
\<close>

record aml_state =
  transaction :: pydict
  customer :: pydict
  risk_score :: int
  alerts :: "string list"
  risk_factors :: "string list"
  decision_path :: "string list"
  pep_status :: "bool option"
  sanction_hits :: "string list"
  documents :: pyval
  document_risks :: "string list"
  crypto_details :: pyval
  origin_country :: pyval
  destination_country :: pyval
  intermediate_countries :: pyval
  structuring_detected :: bool
  smurfing_detected :: bool
  reporting_status :: "string option"
  case_id :: "string option"
  sar_timestamp :: "int option"
  review_status :: "string option"
  review_deadline :: "int option"

definition update_path :: "aml_state \<Rightarrow> string \<Rightarrow> aml_state" where
  "update_path state step = state\<lparr>decision_path := decision_path state @ [step]\<rparr>"

section \<open>Risk scoring\<close>

text \<open>The score is built up term by term from zero, as the source does, then capped.\<close>

definition risk_scoring :: "aml_state \<Rightarrow> aml_state" where
  "risk_scoring state0 =
    (let state = update_path state0 ''risk_scoring'';
         score = 0;
         sanction_hits_n = int (length (sanction_hits state));
         score = score + 40 * sanction_hits_n;
         score = (if pep_status state = Some True then score + 35 else score);
         crypto_risks = int (length [rf \<leftarrow> risk_factors state. str_in ''CRYPTO'' rf]);
         score = score + 25 * crypto_risks;
         jurisdiction_risks = int (length [rf \<leftarrow> risk_factors state.
                                     str_in ''HIGH_RISK'' rf \<or> str_in ''TAX_HAVEN'' rf]);
         score = score + 20 * jurisdiction_risks;
         document_risks_n = int (length (document_risks state));
         score = score + 15 * document_risks_n;
         score = score + 10 * int (length (alerts state));
         score = (if structuring_detected state then score + 30 else score);
         score = (if smurfing_detected state then score + 30 else score);
         final_score = min score 100
     in state\<lparr>risk_score := final_score\<rparr>)"

section \<open>The world outside the workflow\<close>

text \<open>
  What the stages ask of the outside: the language model, the clock and the hash.
  \<open>llm_codes topic state\<close> is the list of risk codes that the stage's regular expression
  finds in the model's reply to the prompt built from \<open>state\<close>, or the error the call
  raises.  \<open>now state k\<close> is the \<open>k\<close>-th reading of the clock in the stage entered with
  \<open>state\<close>.  Both take the state, whose decision path grows with every stage, so every
  call may answer independently of every other.
\<close>

record env =
  runtime :: pyrt
  llm_codes :: "string \<Rightarrow> aml_state \<Rightarrow> py_error + string list"
  now :: "aml_state \<Rightarrow> nat \<Rightarrow> int"
  sha256_hexdigest :: "string \<Rightarrow> string"

section \<open>The rule-based stages\<close>

text \<open>\<open>str.lower()\<close> on ASCII letters.\<close>

definition lower_char :: "char \<Rightarrow> char" where
  "lower_char c = (if CHR ''A'' \<le> c \<and> c \<le> CHR ''Z'' then char_of (of_char c + (32::nat)) else c)"

definition py_lower :: "string \<Rightarrow> string" where
  "py_lower s = map lower_char s"

definition pep_keywords :: "string list" where
  "pep_keywords = [''gov'', ''minister'', ''official'', ''senator'', ''president'', ''director'',
     ''ambassador'']"

text \<open>A value without a \<open>lower\<close> method raises an AttributeError.\<close>

fun check_pep_database :: "pyval \<Rightarrow> py_error + bool" where
  "check_pep_database (PyStr name) = Inr (list_ex (\<lambda>keyword. str_in keyword (py_lower name)) pep_keywords)"
| "check_pep_database v = Inl AttributeError"

fun check_sanctions_list :: "pyval list \<Rightarrow> py_error + string list" where
  "check_sanctions_list [] = Inr []"
| "check_sanctions_list (PyStr entity # entities) =
     ebind (check_sanctions_list entities) (\<lambda>hits.
       Inr (concat (map (\<lambda>sanctioned.
                      if str_in (py_lower sanctioned) (py_lower entity) then [entity] else [])
                    SANCTIONED_ENTITIES) @ hits))"
| "check_sanctions_list (v # entities) = Inl AttributeError"

text \<open>
  Iterating over a value: a list gives its elements, a string its characters, a
  dictionary its keys; anything else is not iterable.
\<close>

fun py_iter :: "pyval \<Rightarrow> py_error + pyval list" where
  "py_iter (PyList xs) = Inr xs"
| "py_iter (PyStr s) = Inr (map (\<lambda>c. PyStr [c]) s)"
| "py_iter (PyDict d) = Inr (map (\<lambda>kv. PyStr (fst kv)) d)"
| "py_iter v = Inl TypeError"

text \<open>Storing under a key the dictionary already has (a list mutated in place shows so).\<close>

definition dict_set :: "pydict \<Rightarrow> string \<Rightarrow> pyval \<Rightarrow> pydict" where
  "dict_set d k v = map (\<lambda>kv. if fst kv = k then (k, v) else kv) d"

fun country_risks :: "pyval \<Rightarrow> string list" where
  "country_risks (PyStr country) =
     (if country \<in> set HIGH_RISK_COUNTRIES then [''HIGH_RISK_'' @ country] else [])
     @ (if country \<in> set TAX_HAVENS then [''TAX_HAVEN_'' @ country] else [])"
| "country_risks v = []"

definition geographic_risk_assessment :: "aml_state \<Rightarrow> py_error + aml_state" where
  "geographic_risk_assessment state0 =
    (let state = update_path state0 ''geo_analysis'';
         tx = transaction state;
         locations = [dict_get tx ''origin_country'' (PyStr []),
                      dict_get tx ''destination_country'' (PyStr []),
                      dict_get tx ''country'' (PyStr [])]
     in ebind (py_iter (dict_get tx ''intermediate_countries'' (PyList []))) (\<lambda>more.
          let locations = filter py_truthy (locations @ more);
              new_factors = concat (map country_risks locations)
          in Inr (state\<lparr>risk_factors := risk_factors state @ new_factors,
                        origin_country := dict_get0 tx ''origin_country'',
                        destination_country := dict_get0 tx ''destination_country'',
                        intermediate_countries := dict_get tx ''intermediate_countries'' (PyList [])\<rparr>)))"

text \<open>
  The sanctions screening appends the two names to the list it read out of the
  transaction; when the transaction has a \<open>parties\<close> list, that list is the one that
  grows.
\<close>

definition sanctions_screening :: "aml_state \<Rightarrow> py_error + aml_state" where
  "sanctions_screening state0 =
    (let state = update_path state0 ''sanctions_check'';
         tx = transaction state
     in case dict_get tx ''parties'' (PyList []) of
          PyList ps \<Rightarrow>
            let parties = ps @ [dict_get (customer state) ''name'' (PyStr []),
                                dict_get tx ''counterparty_id'' (PyStr [])]
            in ebind (check_sanctions_list parties) (\<lambda>hits.
                 Inr (state\<lparr>transaction := (if has_key tx ''parties''
                                               then dict_set tx ''parties'' (PyList parties) else tx),
                            sanction_hits := hits,
                            risk_factors := risk_factors state
                               @ map (\<lambda>hit. ''SANCTION_HIT_'' @ hit) hits\<rparr>))
        | _ \<Rightarrow> Inl AttributeError)"

definition pep_screening :: "aml_state \<Rightarrow> py_error + aml_state" where
  "pep_screening state0 =
    (let state = update_path state0 ''pep_check'';
         customer_name = dict_get (customer state) ''name'' (PyStr [])
     in ebind (check_pep_database customer_name) (\<lambda>is_pep.
          let risk_factors = (if is_pep then risk_factors state @ [''PEP_CUSTOMER'']
                              else risk_factors state)
          in Inr (state\<lparr>pep_status := Some is_pep, risk_factors := risk_factors\<rparr>)))"

definition human_review :: "env \<Rightarrow> aml_state \<Rightarrow> aml_state" where
  "human_review e state0 =
    (let state = update_path state0 ''human_review'' in
     state\<lparr>reporting_status := Some ''HUMAN_REVIEW'',
           review_status := Some ''PENDING'',
           review_deadline := Some (now e state 0 + 24 * 3600 * 1000000)\<rparr>)"

section \<open>The stages that ask the language model\<close>

definition document_analysis :: "env \<Rightarrow> aml_state \<Rightarrow> py_error + aml_state" where
  "document_analysis e state0 =
    (let state = update_path state0 ''document_analysis'' in
     if \<not> py_truthy (documents state)
     then Inr (state\<lparr>alerts := alerts state @ [''MISSING_DOCUMENTS'']\<rparr>)
     else ebind (llm_codes e ''document'' state) (\<lambda>risk_codes.
            Inr (state\<lparr>risk_factors := risk_factors state @ risk_codes,
                       document_risks := risk_codes\<rparr>)))"

text \<open>
  The behavioural analysis.  A timestamp that is a string is parsed, after every \<open>Z\<close> is
  replaced by \<open>+00:00\<close>; \<open>(a - b).days\<close> is the floor of the difference in days.
  Subtracting a naive datetime from an aware one, or the other way round, raises a
  TypeError.
\<close>

definition replace_Z :: "string \<Rightarrow> string" where
  "replace_Z s = concat (map (\<lambda>c. if c = CHR ''Z'' then ''+00:00'' else [c]) s)"

fun to_datetime :: "pyrt \<Rightarrow> pyval \<Rightarrow> py_error + pyval" where
  "to_datetime r (PyStr s) =
     (case fromisoformat r (replace_Z s) of
        None \<Rightarrow> Inl ValueError
      | Some parsed \<Rightarrow> Inr (PyDatetime (fst parsed) (snd parsed)))"
| "to_datetime r v = Inr v"

fun timedelta_days :: "pyval \<Rightarrow> pyval \<Rightarrow> py_error + int" where
  "timedelta_days (PyDatetime aware_a a) (PyDatetime aware_b b) =
     (if aware_a = aware_b then Inr ((a - b) div (24 * 3600 * 1000000)) else Inl TypeError)"
| "timedelta_days u v = Inl TypeError"

text \<open>The loop that collects the history entries less than one day before the current one.\<close>

fun recent_history :: "pyrt \<Rightarrow> pyval \<Rightarrow> pyval list \<Rightarrow> py_error + pydict list" where
  "recent_history r current_timestamp [] = Inr []"
| "recent_history r current_timestamp (PyDict tx # history) =
     ebind (to_datetime r (dict_get tx ''timestamp'' current_timestamp)) (\<lambda>tx_timestamp.
     ebind (timedelta_days current_timestamp tx_timestamp) (\<lambda>days.
     ebind (recent_history r current_timestamp history) (\<lambda>rest.
       Inr (if days < 1 then tx # rest else rest))))"
| "recent_history r current_timestamp (v # history) = Inl AttributeError"

text \<open>\<open>all(float(tx.get("amount", 0)) < CTR_THRESHOLD for tx in recent_txs)\<close> stops at the first
  amount that is not below the threshold.\<close>

fun all_below_threshold :: "pyrt \<Rightarrow> pydict list \<Rightarrow> py_error + bool" where
  "all_below_threshold r [] = Inr True"
| "all_below_threshold r (tx # txs) =
     ebind (py_float r (dict_get tx ''amount'' (PyInt 0))) (\<lambda>amount.
       if amount < CTR_THRESHOLD then all_below_threshold r txs else Inr False)"

fun amounts_of :: "pyrt \<Rightarrow> pydict list \<Rightarrow> py_error + real list" where
  "amounts_of r [] = Inr []"
| "amounts_of r (tx # txs) =
     ebind (py_float r (dict_get tx ''amount'' (PyInt 0))) (\<lambda>amount.
     ebind (amounts_of r txs) (\<lambda>rest. Inr (amount # rest)))"

definition mean :: "real list \<Rightarrow> real" where
  "mean xs = sum_list xs / real (length xs)"

text \<open>\<open>statistics.stdev\<close>: the sample standard deviation (called on two values or more).\<close>

definition variance :: "real list \<Rightarrow> real" where
  "variance xs = sum_list (map (\<lambda>x. (x - mean xs)\<^sup>2) xs) / real (length xs - 1)"

definition stdev :: "real list \<Rightarrow> real" where
  "stdev xs = sqrt (variance xs)"

text \<open>The test \<open>statistics.stdev(xs) < c\<close>, and how to compute it without the square root.\<close>

definition stdev_lt :: "real list \<Rightarrow> real \<Rightarrow> bool" where
  "stdev_lt xs c = (stdev xs < c)"

lemma stdev_lt_code [code]: "stdev_lt xs c = (0 < c \<and> variance xs < c\<^sup>2)"
proof (cases "0 < c")
  case True
  then have "sqrt (variance xs) < c \<longleftrightarrow> variance xs < c\<^sup>2"
    by (metis real_sqrt_less_iff real_sqrt_abs abs_of_pos)
  with True show ?thesis by (simp add: stdev_lt_def stdev_def)
next
  case False
  have "0 \<le> sum_list (map (\<lambda>x. (x - mean xs)\<^sup>2) xs)"
    by (rule sum_list_nonneg) auto
  then have "0 \<le> variance xs" by (simp add: variance_def)
  then have "0 \<le> sqrt (variance xs)" by simp
  with False have "\<not> sqrt (variance xs) < c" by linarith
  with False show ?thesis by (simp add: stdev_lt_def stdev_def)
qed

text \<open>A history that is not a list: only the empty string gets through the loop and the
  slice \<open>history[:10]\<close>.\<close>

fun history_items :: "pyval \<Rightarrow> py_error + pyval list" where
  "history_items (PyList xs) = Inr xs"
| "history_items (PyStr s) = (if s = [] then Inr [] else Inl AttributeError)"
| "history_items (PyDict d) = (if d = [] then Inl TypeError else Inl AttributeError)"
| "history_items v = Inl TypeError"

definition structuring_alerts :: "pyrt \<Rightarrow> pydict list \<Rightarrow> py_error + string list" where
  "structuring_alerts r recent_txs =
     ebind (if length recent_txs > 3
            then ebind (all_below_threshold r recent_txs) (\<lambda>below.
                   Inr (if below then [''STRUCTURING_PATTERN''] else []))
            else Inr []) (\<lambda>alerts1.
     ebind (if length recent_txs > 5
            then ebind (amounts_of r recent_txs) (\<lambda>amounts.
                   Inr (if length amounts > 1 \<and> stdev_lt amounts 500
                        then [''UNIFORM_TRANSACTIONS''] else []))
            else Inr []) (\<lambda>alerts2.
       Inr (alerts1 @ alerts2)))"

definition recent_txs_of :: "env \<Rightarrow> aml_state \<Rightarrow> py_error + pydict list" where
  "recent_txs_of e state =
     (let current = transaction state in
      ebind (to_datetime (runtime e) (dict_get current ''timestamp'' (PyDatetime False (now e state 0))))
        (\<lambda>current_timestamp.
      ebind (history_items (dict_get (customer state) ''transaction_history'' (PyList []))) (\<lambda>history.
      ebind (recent_history (runtime e) current_timestamp history) (\<lambda>recent.
        Inr (recent @ [current])))))"

definition behavioral_analysis :: "env \<Rightarrow> aml_state \<Rightarrow> py_error + aml_state" where
  "behavioral_analysis e state0 =
    (let state = update_path state0 ''behavior_analysis'' in
     ebind (recent_txs_of e state) (\<lambda>recent_txs.
     ebind (structuring_alerts (runtime e) recent_txs) (\<lambda>structuring_alerts.
     ebind (llm_codes e ''behavioral'' state) (\<lambda>behavioral_codes.
       Inr (state\<lparr>alerts := alerts state @ structuring_alerts,
                  risk_factors := risk_factors state @ behavioral_codes,
                  structuring_detected := (''STRUCTURING_PATTERN'' \<in> set structuring_alerts)\<rparr>)))))"

text \<open>The crypto analysis: \<open>details.get\<close> needs a dictionary.\<close>

definition crypto_rule_risks :: "pydict \<Rightarrow> py_error + string list" where
  "crypto_rule_risks details =
     ebind (py_lt_num (dict_get details ''wallet_age_days'' (PyInt 0)) 7) (\<lambda>new_wallet.
     ebind (py_gt_num (dict_get details ''cross_chain_swaps'' (PyInt 0)) 3) (\<lambda>complex_routing.
       Inr ((if py_truthy (dict_get0 details ''mixer_used'') then [''CRYPTO_MIXER''] else [])
          @ (if in_strs (dict_get0 details ''darknet_market'') DARKNET_MARKETS
             then [''DARKNET_CONNECTION''] else [])
          @ (if new_wallet then [''NEW_WALLET''] else [])
          @ (if complex_routing then [''COMPLEX_ROUTING''] else []))))"

definition crypto_risk_analysis :: "env \<Rightarrow> aml_state \<Rightarrow> py_error + aml_state" where
  "crypto_risk_analysis e state0 =
    (let state = update_path state0 ''crypto_analysis'' in
     if dict_get0 (transaction state) ''asset_type'' \<noteq> PyStr ''CRYPTO'' then Inr state
     else case dict_get (transaction state) ''crypto_details'' (PyDict []) of
            PyDict details \<Rightarrow>
              ebind (crypto_rule_risks details) (\<lambda>risks.
              ebind (llm_codes e ''crypto'' state) (\<lambda>llm_risks.
                Inr (state\<lparr>risk_factors := risk_factors state @ risks @ llm_risks,
                           crypto_details := PyDict details\<rparr>)))
          | _ \<Rightarrow> Inl AttributeError)"

definition enhanced_due_diligence :: "env \<Rightarrow> aml_state \<Rightarrow> py_error + aml_state" where
  "enhanced_due_diligence e state0 =
    (let state = update_path state0 ''enhanced_dd'' in
     ebind (llm_codes e ''edd'' state) (\<lambda>critical_risks.
       Inr (state\<lparr>risk_factors := risk_factors state @ critical_risks\<rparr>)))"

text \<open>The case number is the first 12 characters of the hash of the clock's reading.\<close>

definition generate_case_id :: "env \<Rightarrow> aml_state \<Rightarrow> string" where
  "generate_case_id e state = take 12 (sha256_hexdigest e (str_of (runtime e) (PyDatetime False (now e state 0))))"

definition generate_sar :: "env \<Rightarrow> aml_state \<Rightarrow> py_error + aml_state" where
  "generate_sar e state0 =
    (let state = update_path state0 ''sar_generation'';
         case_id = generate_case_id e state
     in ebind (llm_codes e ''sar'' state) (\<lambda>sar_content.
          Inr (state\<lparr>reporting_status := Some ''SAR_FILED'',
                     case_id := Some case_id,
                     sar_timestamp := Some (now e state 1)\<rparr>)))"

section \<open>Routing\<close>

datatype node =
    InitialScreening | CryptoAnalysis | GeoAnalysis | DocumentCheck | BehaviorCheck
  | SanctionsCheck | PepCheck | Edd | ScoreRisk | GenerateSar | HumanReview | END

definition route_initial_screening :: "pyrt \<Rightarrow> aml_state \<Rightarrow> py_error + string" where
  "route_initial_screening rt state =
    (let tx = transaction state; cust = customer state in
     if dict_get0 tx ''asset_type'' = PyStr ''CRYPTO'' then Inr ''CRYPTO_TRANSACTION''
     else ebind (py_float rt (dict_get tx ''amount'' (PyInt 0))) (\<lambda>amount.
       if amount > 100000 then Inr ''LARGE_TRANSACTION''
       else ebind (py_lt_num (dict_get cust ''account_age_days'' (PyInt 365)) 7) (\<lambda>young.
         if young then Inr ''NEW_ACCOUNT''
         else if in_strs (dict_get0 tx ''from_bank'') HIGH_RISK_BANKS
                 \<or> in_strs (dict_get0 tx ''to_bank'') HIGH_RISK_BANKS
              then Inr ''HIGH_RISK_BANK''
         else Inr ''STANDARD_FLOW'')))"

definition route_crypto_analysis :: "aml_state \<Rightarrow> string" where
  "route_crypto_analysis state =
    (let crypto_risks = [rf \<leftarrow> risk_factors state. str_in ''CRYPTO'' rf] in
     if length crypto_risks \<ge> 2 then ''HIGH_RISK_CRYPTO'' else ''NORMAL_CRYPTO'')"

definition route_sanctions_check :: "aml_state \<Rightarrow> string" where
  "route_sanctions_check state =
    (if sanction_hits state \<noteq> [] then ''SANCTION_HIT'' else ''NO_HIT'')"

definition route_pep_check :: "aml_state \<Rightarrow> string" where
  "route_pep_check state = (if pep_status state = Some True then ''PEP_FOUND'' else ''NO_PEP'')"

definition route_risk_score :: "aml_state \<Rightarrow> string" where
  "route_risk_score state =
    (let risk_score = risk_score state in
     if risk_score \<ge> 65 then ''HIGH_RISK''
     else if risk_score \<ge> 40 then ''MEDIUM_RISK''
     else ''LOW_RISK'')"

text \<open>
  The edges of the graph built by \<open>_build_workflow\<close>: for a conditional edge the router's
  key is looked up in the edge's table (a missing key is a KeyError), a plain edge has
  one target.
\<close>

definition edge_lookup :: "(string \<times> node) list \<Rightarrow> string \<Rightarrow> py_error + node" where
  "edge_lookup table key = (case map_of table key of None \<Rightarrow> Inl KeyError | Some n \<Rightarrow> Inr n)"

definition initial_screening_edges :: "(string \<times> node) list" where
  "initial_screening_edges =
    [(''CRYPTO_TRANSACTION'', CryptoAnalysis), (''LARGE_TRANSACTION'', GeoAnalysis),
     (''NEW_ACCOUNT'', Edd), (''HIGH_RISK_BANK'', GeoAnalysis), (''STANDARD_FLOW'', DocumentCheck)]"

definition crypto_analysis_edges :: "(string \<times> node) list" where
  "crypto_analysis_edges = [(''HIGH_RISK_CRYPTO'', Edd), (''NORMAL_CRYPTO'', DocumentCheck)]"

definition sanctions_check_edges :: "(string \<times> node) list" where
  "sanctions_check_edges = [(''SANCTION_HIT'', GenerateSar), (''NO_HIT'', PepCheck)]"

definition pep_check_edges :: "(string \<times> node) list" where
  "pep_check_edges = [(''PEP_FOUND'', Edd), (''NO_PEP'', ScoreRisk)]"

definition score_risk_edges :: "(string \<times> node) list" where
  "score_risk_edges = [(''HIGH_RISK'', GenerateSar), (''MEDIUM_RISK'', HumanReview), (''LOW_RISK'', END)]"

fun next_node :: "pyrt \<Rightarrow> node \<Rightarrow> aml_state \<Rightarrow> py_error + node" where
  "next_node rt InitialScreening s =
     ebind (route_initial_screening rt s) (edge_lookup initial_screening_edges)"
| "next_node rt CryptoAnalysis s = edge_lookup crypto_analysis_edges (route_crypto_analysis s)"
| "next_node rt GeoAnalysis s = Inr DocumentCheck"
| "next_node rt DocumentCheck s = Inr BehaviorCheck"
| "next_node rt BehaviorCheck s = Inr SanctionsCheck"
| "next_node rt SanctionsCheck s = edge_lookup sanctions_check_edges (route_sanctions_check s)"
| "next_node rt PepCheck s = edge_lookup pep_check_edges (route_pep_check s)"
| "next_node rt Edd s = Inr ScoreRisk"
| "next_node rt ScoreRisk s = edge_lookup score_risk_edges (route_risk_score s)"
| "next_node rt GenerateSar s = Inr END"
| "next_node rt HumanReview s = Inr END"
| "next_node rt END s = Inr END"

section \<open>Canonicalisation and the initial state\<close>

text \<open>
  \<open>unify_transaction_data\<close>: the shape of the raw record is read off a sentinel key.  The
  values of the dictionary display are evaluated in order, so the first failing
  conversion is the error raised.
\<close>

definition unify_transaction_data :: "pyrt \<Rightarrow> pydict \<Rightarrow> py_error + pydict" where
  "unify_transaction_data rt tx =
    (if has_key tx ''From Bank'' then
       ebind (py_float rt (dict_get tx ''Amount Received'' (PyInt 0))) (\<lambda>amount.
       ebind (py_int rt (dict_get tx ''Is Laundering'' (PyInt 0))) (\<lambda>label.
         Inr [(''transaction_id'', PyStr (''HI_'' @ str_of rt (dict_get tx ''Account'' (PyStr ''unknown'')))),
              (''customer_id'', dict_get tx ''Account'' (PyStr ''unknown'')),
              (''counterparty_id'', dict_get tx ''To Bank'' (PyStr ''unknown'')),
              (''amount'', PyFloat amount),
              (''currency'', dict_get tx ''Receiving Currency'' (PyStr ''USD'')),
              (''transaction_type'', dict_get tx ''Payment Format'' (PyStr ''unknown'')),
              (''transaction_date'', dict_get tx ''Timestamp'' (PyStr [])),
              (''location'', PyStr ''Unknown''),
              (''country'', PyStr ''Unknown''),
              (''description'', PyStr ''HI-Small_Trans transaction''),
              (''status'', PyStr ''completed''),
              (''from_bank'', dict_get0 tx ''From Bank''),
              (''to_bank'', dict_get0 tx ''To Bank''),
              (''payment_format'', dict_get0 tx ''Payment Format''),
              (''ground_truth_label'', PyInt label)]))
     else if has_key tx ''transaction_id'' then
       ebind (py_float rt (dict_get tx ''amount'' (PyInt 0))) (\<lambda>amount.
         Inr [(''transaction_id'', dict_get0 tx ''transaction_id''),
              (''customer_id'', dict_get tx ''customer_id'' (PyStr ''unknown'')),
              (''counterparty_id'', dict_get0 tx ''counterparty_id''),
              (''amount'', PyFloat amount),
              (''currency'', dict_get tx ''currency'' (PyStr ''USD'')),
              (''transaction_type'', dict_get tx ''transaction_type'' (PyStr ''unknown'')),
              (''transaction_date'', dict_get tx ''transaction_date'' (PyStr [])),
              (''location'', dict_get tx ''location'' (PyStr ''Unknown'')),
              (''country'', dict_get tx ''country'' (PyStr ''Unknown'')),
              (''description'', dict_get tx ''description'' (PyStr [])),
              (''status'', dict_get tx ''status'' (PyStr ''completed'')),
              (''asset_type'', dict_get tx ''asset_type'' (PyStr ''FIAT'')),
              (''crypto_details'', dict_get0 tx ''crypto_details''),
              (''origin_country'', dict_get0 tx ''origin_country''),
              (''destination_country'', dict_get0 tx ''destination_country''),
              (''intermediate_countries'', dict_get tx ''intermediate_countries'' (PyList [])),
              (''documents'', dict_get tx ''documents'' (PyList []))])
     else if has_key tx ''SENDER_ACCOUNT_ID'' then
       ebind (py_float rt (dict_get tx ''amount'' (PyInt 0))) (\<lambda>amount.
       ebind (py_int rt (dict_get tx ''IS_FRAUD'' (PyInt 0))) (\<lambda>label.
         Inr [(''transaction_id'', PyStr (str_of rt (dict_get tx ''transaction_id'' (PyStr ''unknown'')))),
              (''customer_id'', dict_get tx ''SENDER_ACCOUNT_ID'' (PyStr ''unknown'')),
              (''counterparty_id'', dict_get tx ''RECEIVER_ACCOUNT_ID'' (PyStr ''unknown'')),
              (''amount'', PyFloat amount),
              (''currency'', PyStr ''USD''),
              (''transaction_type'', dict_get tx ''TX_TYPE'' (PyStr ''unknown'')),
              (''transaction_date'', PyStr (str_of rt (dict_get tx ''TIMESTAMP'' (PyStr [])))),
              (''location'', PyStr ''Unknown''),
              (''country'', PyStr ''Unknown''),
              (''description'', PyStr ''Fraud detection transaction''),
              (''status'', PyStr ''completed''),
              (''ground_truth_label'', PyInt label)]))
     else Inr [])"

text \<open>The state \<open>run_analysis\<close> starts the workflow from.\<close>

definition initial_state :: "pydict \<Rightarrow> pydict \<Rightarrow> pydict \<Rightarrow> aml_state" where
  "initial_state raw unified_tx cust =
    \<lparr>transaction = unified_tx, customer = cust, risk_score = 0, alerts = [],
     risk_factors = [], decision_path = [], pep_status = None, sanction_hits = [],
     documents = dict_get raw ''documents'' (PyList []), document_risks = [],
     crypto_details = dict_get0 raw ''crypto_details'',
     origin_country = dict_get0 raw ''origin_country'',
     destination_country = dict_get0 raw ''destination_country'',
     intermediate_countries = dict_get raw ''intermediate_countries'' (PyList []),
     structuring_detected = False, smurfing_detected = False,
     reporting_status = None, case_id = None, sar_timestamp = None,
     review_status = None, review_deadline = None\<rparr>"

section \<open>Running the workflow\<close>

text \<open>The function each node of the graph runs, and the name it appends to the path.\<close>

fun node_fn :: "env \<Rightarrow> node \<Rightarrow> aml_state \<Rightarrow> py_error + aml_state" where
  "node_fn e InitialScreening s = Inr (update_path s ''start'')"
| "node_fn e CryptoAnalysis s = crypto_risk_analysis e s"
| "node_fn e GeoAnalysis s = geographic_risk_assessment s"
| "node_fn e DocumentCheck s = document_analysis e s"
| "node_fn e BehaviorCheck s = behavioral_analysis e s"
| "node_fn e SanctionsCheck s = sanctions_screening s"
| "node_fn e PepCheck s = pep_screening s"
| "node_fn e Edd s = enhanced_due_diligence e s"
| "node_fn e ScoreRisk s = Inr (risk_scoring s)"
| "node_fn e GenerateSar s = generate_sar e s"
| "node_fn e HumanReview s = Inr (human_review e s)"
| "node_fn e END s = Inr s"

fun stage_label :: "node \<Rightarrow> string" where
  "stage_label InitialScreening = ''start''"
| "stage_label CryptoAnalysis = ''crypto_analysis''"
| "stage_label GeoAnalysis = ''geo_analysis''"
| "stage_label DocumentCheck = ''document_analysis''"
| "stage_label BehaviorCheck = ''behavior_analysis''"
| "stage_label SanctionsCheck = ''sanctions_check''"
| "stage_label PepCheck = ''pep_check''"
| "stage_label Edd = ''enhanced_dd''"
| "stage_label ScoreRisk = ''risk_scoring''"
| "stage_label GenerateSar = ''sar_generation''"
| "stage_label HumanReview = ''human_review''"
| "stage_label END = []"

text \<open>The depth of a node in the graph: every edge goes to a deeper node.\<close>

fun depth :: "node \<Rightarrow> nat" where
  "depth InitialScreening = 0"
| "depth CryptoAnalysis = 1"
| "depth GeoAnalysis = 1"
| "depth DocumentCheck = 2"
| "depth BehaviorCheck = 3"
| "depth SanctionsCheck = 4"
| "depth PepCheck = 5"
| "depth Edd = 6"
| "depth ScoreRisk = 7"
| "depth GenerateSar = 8"
| "depth HumanReview = 8"
| "depth END = 9"

lemma edge_lookup_cases:
  "edge_lookup table key = Inr n \<Longrightarrow> (key, n) \<in> set table"
  by (auto simp: edge_lookup_def split: option.splits dest: map_of_SomeD)

lemma next_node_deeper:
  assumes "n \<noteq> END" and "next_node r n s = Inr n'"
  shows "depth n < depth n'"
proof (cases n)
  case InitialScreening
  with assms(2) obtain key where "edge_lookup initial_screening_edges key = Inr n'"
    by (auto simp: ebind_def split: sum.splits)
  from edge_lookup_cases [OF this] InitialScreening show ?thesis
    by (auto simp: initial_screening_edges_def)
next
  case CryptoAnalysis
  with assms(2) have "edge_lookup crypto_analysis_edges (route_crypto_analysis s) = Inr n'"
    by simp
  from edge_lookup_cases [OF this] CryptoAnalysis show ?thesis
    by (auto simp: crypto_analysis_edges_def)
next
  case SanctionsCheck
  with assms(2) have "edge_lookup sanctions_check_edges (route_sanctions_check s) = Inr n'"
    by simp
  from edge_lookup_cases [OF this] SanctionsCheck show ?thesis
    by (auto simp: sanctions_check_edges_def)
next
  case PepCheck
  with assms(2) have "edge_lookup pep_check_edges (route_pep_check s) = Inr n'"
    by simp
  from edge_lookup_cases [OF this] PepCheck show ?thesis
    by (auto simp: pep_check_edges_def)
next
  case ScoreRisk
  with assms(2) have "edge_lookup score_risk_edges (route_risk_score s) = Inr n'"
    by simp
  from edge_lookup_cases [OF this] ScoreRisk show ?thesis
    by (auto simp: score_risk_edges_def)
qed (use assms in auto)

lemma depth_le: "depth n \<le> 9"
  by (cases n) simp_all

lemma run_measure:
  assumes "n \<noteq> END" and "next_node r n s = Inr n'"
  shows "9 - depth n' < 9 - depth n"
  using next_node_deeper [OF assms] depth_le [of n'] by arith

text \<open>
  One invocation of the compiled graph from a node: the node's function runs, the
  router picks the successor from the state the node returned, and so on until \<open>END\<close>.
  The result is the list of the nodes that ran and the final state, or the error that
  stopped the run.
\<close>

function run :: "env \<Rightarrow> node \<Rightarrow> aml_state \<Rightarrow> node list \<times> (py_error + aml_state)" where
  "run e n s =
    (if n = END then ([], Inr s)
     else case node_fn e n s of
            Inl err \<Rightarrow> ([n], Inl err)
          | Inr s' \<Rightarrow>
              (case next_node (runtime e) n s' of
                 Inl err \<Rightarrow> ([n], Inl err)
               | Inr n' \<Rightarrow> (n # fst (run e n' s'), snd (run e n' s'))))"
  by pat_completeness auto
termination
  by (relation "measure (\<lambda>(e, n, s). 9 - depth n)") (auto intro: run_measure)

declare run.simps [simp del]

text \<open>The report \<open>format_analysis_output\<close> builds; the findings it copies are left out.\<close>

record report =
  rep_risk_score :: int
  rep_risk_level :: string
  rep_decision_path :: "string list"
  rep_status :: "string option"
  rep_case_id :: "string option"
  rep_sar_timestamp :: "int option"
  rep_review_status :: "string option"
  rep_review_deadline :: "int option"

definition determine_risk_level :: "int \<Rightarrow> string" where
  "determine_risk_level score =
    (if score \<ge> 80 then ''CRITICAL''
     else if score \<ge> 65 then ''HIGH''
     else if score \<ge> 40 then ''MEDIUM''
     else ''LOW'')"

definition format_analysis_output :: "aml_state \<Rightarrow> report" where
  "format_analysis_output result =
    \<lparr>rep_risk_score = risk_score result,
     rep_risk_level = determine_risk_level (risk_score result),
     rep_decision_path = decision_path result,
     rep_status = reporting_status result,
     rep_case_id = case_id result,
     rep_sar_timestamp = sar_timestamp result,
     rep_review_status = review_status result,
     rep_review_deadline = review_deadline result\<rparr>"

text \<open>
  \<open>workflow.invoke\<close>.  The graph is compiled with a checkpointer (\<open>MemorySaver\<close>), and a
  graph with a checkpointer refuses an invocation whose configuration names no thread:
  it raises a ValueError before any node runs.  With a thread it runs the graph from
  the initial screening.
\<close>

definition invoke :: "env \<Rightarrow> string option \<Rightarrow> aml_state \<Rightarrow> py_error + aml_state" where
  "invoke e thread_id state =
    (case thread_id of
       None \<Rightarrow> Inl ValueError
     | Some t \<Rightarrow> snd (run e InitialScreening state))"

text \<open>\<open>run_analysis\<close> invokes the graph with the initial state and no configuration.\<close>

definition run_analysis :: "env \<Rightarrow> pydict \<Rightarrow> pydict \<Rightarrow> py_error + report" where
  "run_analysis e tx cust =
     ebind (unify_transaction_data (runtime e) tx) (\<lambda>unified_tx.
     ebind (invoke e None (initial_state tx unified_tx cust)) (\<lambda>result.
       Inr (format_analysis_output result)))"

text \<open>
  The last step of \<open>analyze_transaction\<close>: the report is stored in the global index
  \<open>INVESTIGATION_RESULTS\<close> under its case number when that is a non-empty string.
\<close>

definition store_result :: "(string \<rightharpoonup> report) \<Rightarrow> report \<Rightarrow> (string \<rightharpoonup> report)" where
  "store_result index result =
    (case rep_case_id result of
       Some c \<Rightarrow> if c \<noteq> [] then index(c \<mapsto> result) else index
     | None \<Rightarrow> index)"

text \<open>\<open>analyze_transaction\<close> without a chat thread.\<close>

definition analyze_transaction ::
  "env \<Rightarrow> pydict \<Rightarrow> pydict \<Rightarrow> (string \<rightharpoonup> report) \<Rightarrow> (py_error + report) \<times> (string \<rightharpoonup> report)" where
  "analyze_transaction e tx cust index =
    (case run_analysis e tx cust of
       Inl err \<Rightarrow> (Inl err, index)
     | Inr result \<Rightarrow> (Inr result, store_result index result))"

text \<open>A state that no disposition has touched yet.\<close>

definition unreported :: "aml_state \<Rightarrow> bool" where
  "unreported s = (case_id s = None \<and> reporting_status s = None \<and> review_status s = None
      \<and> review_deadline s = None)"

text \<open>
  The time of a history entry as the loop reads it, when it can be subtracted from the
  current timestamp: an entry without a timestamp takes the current one, and a
  timestamp must be as offset-aware as the current one.  The test that keeps an entry:
  it lies less than one whole day before the current transaction.
\<close>

definition tx_time :: "pyrt \<Rightarrow> bool \<Rightarrow> int \<Rightarrow> pydict \<Rightarrow> int option" where
  "tx_time r aware cur tx =
    (case dict_get tx ''timestamp'' (PyDatetime aware cur) of
       PyDatetime a t \<Rightarrow> if a = aware then Some t else None
     | PyStr s \<Rightarrow>
         (case fromisoformat r (replace_Z s) of
            None \<Rightarrow> None
          | Some parsed \<Rightarrow> if fst parsed = aware then Some (snd parsed) else None)
     | _ \<Rightarrow> None)"

definition in_window :: "pyrt \<Rightarrow> bool \<Rightarrow> int \<Rightarrow> pydict \<Rightarrow> bool" where
  "in_window r aware cur tx =
    (case tx_time r aware cur tx of
       Some t \<Rightarrow> (cur - t) div (24 * 3600 * 1000000) < 1
     | None \<Rightarrow> False)"

section \<open>The smurfing detector of the analysis tools\<close>

text \<open>
  The sort key \<open>tx.get("transaction_date", "")\<close>.  The dates are compared as strings; a
  date that is not a string is taken to fail the comparison (whatever Python then does,
  the detector answers with no detection and a score of zero).
\<close>

definition date_key :: "pydict \<Rightarrow> py_error + string" where
  "date_key tx = (case dict_get tx ''transaction_date'' (PyStr []) of
                    PyStr s \<Rightarrow> Inr s | _ \<Rightarrow> Inl TypeError)"

fun date_keys :: "pydict list \<Rightarrow> py_error + (string \<times> pydict) list" where
  "date_keys [] = Inr []"
| "date_keys (tx # txs) =
     ebind (date_key tx) (\<lambda>k. ebind (date_keys txs) (\<lambda>rest. Inr ((k, tx) # rest)))"

text \<open>\<open>sorted(transactions, key=...)\<close>: a stable sort on the keys.\<close>

definition sorted_transactions :: "pydict list \<Rightarrow> py_error + pydict list" where
  "sorted_transactions txs = ebind (date_keys txs) (\<lambda>keyed. Inr (map snd (sort_key fst keyed)))"

text \<open>
  \<open>_within_time_window\<close>: a date that does not parse makes the answer False, and so does
  the TypeError of subtracting a naive date from an aware one.
\<close>

definition parse_date :: "pyrt \<Rightarrow> pydict \<Rightarrow> (bool \<times> int) option" where
  "parse_date r tx = (case dict_get tx ''transaction_date'' (PyStr []) of
                        PyStr s \<Rightarrow> fromisoformat r s | _ \<Rightarrow> None)"

definition within_time_window :: "pyrt \<Rightarrow> pydict \<Rightarrow> pydict \<Rightarrow> int \<Rightarrow> bool" where
  "within_time_window r tx1 tx2 time_window_hours =
    (case parse_date r tx1 of
       None \<Rightarrow> False
     | Some date1 \<Rightarrow>
         (case parse_date r tx2 of
            None \<Rightarrow> False
          | Some date2 \<Rightarrow>
              fst date1 = fst date2
              \<and> \<bar>snd date2 - snd date1\<bar> \<le> time_window_hours * 3600 * 1000000))"

text \<open>
  The loop of \<open>_group_by_time_window\<close> over the sorted transactions, with its two
  variables \<open>current_group\<close> and \<open>groups\<close>: a transaction joins the current group when it
  is within the window of the group's first transaction.
\<close>

fun group_loop :: "pyrt \<Rightarrow> int \<Rightarrow> pydict list \<Rightarrow> pydict list list \<Rightarrow> pydict list \<Rightarrow> pydict list list" where
  "group_loop r hours current_group groups [] =
     (if current_group \<noteq> [] then groups @ [current_group] else groups)"
| "group_loop r hours [] groups (tx # txs) = group_loop r hours [tx] groups txs"
| "group_loop r hours (first # others) groups (tx # txs) =
     (if within_time_window r first tx hours
      then group_loop r hours ((first # others) @ [tx]) groups txs
      else group_loop r hours [tx] (groups @ [first # others]) txs)"

definition group_by_time_window :: "pyrt \<Rightarrow> pydict list \<Rightarrow> int \<Rightarrow> py_error + pydict list list" where
  "group_by_time_window r txs time_window_hours =
     ebind (sorted_transactions txs) (\<lambda>sorted_txs.
       Inr (group_loop r time_window_hours [] [] sorted_txs))"

text \<open>
  The elements of a Python set: equal numbers of different types are one element, and a
  list or a dictionary cannot be an element.
\<close>

fun py_hash_key :: "pyval \<Rightarrow> py_error + pyval" where
  "py_hash_key (PyBool b) = Inr (PyFloat (if b then 1 else 0))"
| "py_hash_key (PyInt i) = Inr (PyFloat (of_int i))"
| "py_hash_key (PyList xs) = Inl TypeError"
| "py_hash_key (PyDict d) = Inl TypeError"
| "py_hash_key v = Inr v"

fun hash_keys :: "pyval list \<Rightarrow> py_error + pyval list" where
  "hash_keys [] = Inr []"
| "hash_keys (v # vs) = ebind (py_hash_key v) (\<lambda>k. ebind (hash_keys vs) (\<lambda>rest. Inr (k # rest)))"

definition unique_count :: "pyval list \<Rightarrow> py_error + nat" where
  "unique_count vs = ebind (hash_keys vs) (\<lambda>ks. Inr (length (remdups ks)))"

text \<open>\<open>numpy.var\<close>: the population variance.\<close>

definition np_var :: "real list \<Rightarrow> real" where
  "np_var xs = sum_list (map (\<lambda>x. (x - mean xs)\<^sup>2) xs) / real (length xs)"

definition calculate_coordination_score :: "pyrt \<Rightarrow> pydict list \<Rightarrow> py_error + real" where
  "calculate_coordination_score r transactions =
    (if length transactions < 2 then Inr 0
     else ebind (unique_count (map (\<lambda>tx. dict_get0 tx ''counterparty_id'') transactions))
       (\<lambda>unique_recipients.
          ebind (amounts_of r transactions) (\<lambda>amounts.
            let amount_variance = (if length amounts > 1 then np_var amounts else 0);
                score = 0;
                score = (if unique_recipients = 1 then score + 0.5 else score);
                score = (if amount_variance < 1000 then score + 0.3 else score);
                score = (if length transactions \<ge> 3 then score + 0.2 else score)
            in Inr (min 1 score))))"

record coordinated_group =
  transactions :: "pydict list"
  coordination_score :: real
  time_window :: pyval
  participant_count :: nat

text \<open>The loop of \<open>detect_smurfing_patterns\<close> over the time groups.\<close>

fun coordinated_groups_of :: "pyrt \<Rightarrow> pydict list list \<Rightarrow> py_error + coordinated_group list" where
  "coordinated_groups_of r [] = Inr []"
| "coordinated_groups_of r (time_group # time_groups) =
     (if length time_group \<ge> 3
      then ebind (calculate_coordination_score r time_group) (\<lambda>score.
           ebind (coordinated_groups_of r time_groups) (\<lambda>rest.
             Inr (if score > 0.6
                  then \<lparr>transactions = time_group, coordination_score = score,
                         time_window = dict_get (hd time_group) ''transaction_date'' (PyStr []),
                         participant_count = length time_group\<rparr> # rest
                  else rest)))
      else coordinated_groups_of r time_groups)"

definition calculate_smurfing_score :: "coordinated_group list \<Rightarrow> real" where
  "calculate_smurfing_score groups =
    (if groups = [] then 0
     else let avg_coordination = mean (map coordination_score groups);
              group_factor = min 1 (real (length groups) / 3)
          in avg_coordination * 0.7 + group_factor * 0.3)"

text \<open>The result; an exception anywhere is caught and reported with no detection.\<close>

record smurfing_result =
  detected :: bool
  smurfing_score :: real
  coordinated_groups :: "coordinated_group list"
  error :: "py_error option"

definition detect_smurfing_patterns :: "pyrt \<Rightarrow> pydict \<Rightarrow> pydict list \<Rightarrow> int \<Rightarrow> smurfing_result" where
  "detect_smurfing_patterns r transaction_data related_transactions time_window_hours =
    (case ebind (group_by_time_window r related_transactions time_window_hours)
            (coordinated_groups_of r) of
       Inl e \<Rightarrow> \<lparr>detected = False, smurfing_score = 0, coordinated_groups = [], error = Some e\<rparr>
     | Inr groups \<Rightarrow>
         let score = calculate_smurfing_score groups
         in \<lparr>detected = (score > 0.7), smurfing_score = score, coordinated_groups = groups,
              error = None\<rparr>)"

text \<open>
  The windows as a function of the sorted list: a window is a transaction and the
  longest run of following transactions within the time window of that first one.
\<close>

function anchored_windows :: "pyrt \<Rightarrow> int \<Rightarrow> pydict list \<Rightarrow> pydict list list" where
  "anchored_windows r hours [] = []"
| "anchored_windows r hours (first # txs) =
     (first # takeWhile (\<lambda>tx. within_time_window r first tx hours) txs)
     # anchored_windows r hours (dropWhile (\<lambda>tx. within_time_window r first tx hours) txs)"
  by pat_completeness auto
termination
  by (relation "measure (\<lambda>(r, hours, txs). length txs)")
    (auto simp: length_dropWhile_le less_Suc_eq_le)

section \<open>The batch processor\<close>

text \<open>
  The counters of \<open>AMLBatchProcessor\<close>.  A data frame is the list of its rows with
  their index labels.  \<open>investigate idx row\<close> stands for what the loop body does
  with a row before it touches the result: it builds the transaction event and the
  customer record and awaits \<open>run_aml_investigation\<close>; it gives the result dictionary or
  the exception raised on the way.
\<close>

record processing_stats =
  total_processed :: nat
  escalated_cases :: nat
  sar_cases :: nat
  pending_approvals :: nat
  errors :: nat

text \<open>\<open>d[k] = v\<close>.\<close>

definition dict_put :: "pydict \<Rightarrow> string \<Rightarrow> pyval \<Rightarrow> pydict" where
  "dict_put d k v = (if has_key d k then dict_set d k v else d @ [(k, v)])"

definition update_stats :: "processing_stats \<Rightarrow> pydict \<Rightarrow> processing_stats" where
  "update_stats stats result =
    (let stats = stats\<lparr>total_processed := total_processed stats + 1\<rparr>;
         risk_level = dict_get result ''risk_level'' (PyStr ''Low'');
         reporting_status = dict_get result ''reporting_status'' (PyStr []);
         stats = (if in_strs risk_level [''High'', ''Critical'']
                  then stats\<lparr>escalated_cases := escalated_cases stats + 1\<rparr> else stats);
         stats = (if reporting_status = PyStr ''SAR_FILED''
                  then stats\<lparr>sar_cases := sar_cases stats + 1\<rparr> else stats);
         stats = (if dict_get0 result ''approval_status'' = PyStr ''pending''
                  then stats\<lparr>pending_approvals := pending_approvals stats + 1\<rparr> else stats)
     in stats)"

text \<open>The body of the loop: the \<open>try\<close> block and its \<open>except Exception\<close> handler.\<close>

definition process_row ::
  "(int \<Rightarrow> pydict \<Rightarrow> py_error + pydict) \<Rightarrow> int \<times> pydict \<Rightarrow> pydict list \<times> processing_stats
     \<Rightarrow> pydict list \<times> processing_stats" where
  "process_row investigate indexed_row acc =
    (let (idx, row) = indexed_row; (results, stats) = acc in
     case investigate idx row of
       Inl e \<Rightarrow> (results, stats\<lparr>errors := errors stats + 1\<rparr>)
     | Inr result \<Rightarrow>
         let result = dict_put result ''ground_truth'' (dict_get row ''Is Laundering'' (PyInt 0));
             result = dict_put result ''prediction''
                        (PyInt (if in_strs (dict_get0 result ''risk_level'') [''High'', ''Critical'']
                                then 1 else 0));
             stats = update_stats stats result
         in (results @ [result], stats))"

fun process_rows ::
  "(int \<Rightarrow> pydict \<Rightarrow> py_error + pydict) \<Rightarrow> (int \<times> pydict) list \<Rightarrow> pydict list \<times> processing_stats
     \<Rightarrow> pydict list \<times> processing_stats" where
  "process_rows investigate [] acc = acc"
| "process_rows investigate (indexed_row # df) acc =
     process_rows investigate df (process_row investigate indexed_row acc)"

text \<open>\<open>_process_hi_trans_batch\<close>: the results of the batch and the counters after it.\<close>

definition process_hi_trans_batch ::
  "(int \<Rightarrow> pydict \<Rightarrow> py_error + pydict) \<Rightarrow> (int \<times> pydict) list \<Rightarrow> processing_stats
     \<Rightarrow> pydict list \<times> processing_stats" where
  "process_hi_trans_batch investigate df stats = process_rows investigate df ([], stats)"

text \<open>\<open>v == n\<close> for an integer \<open>n\<close>.\<close>

definition py_eq_int :: "pyval \<Rightarrow> int \<Rightarrow> bool" where
  "py_eq_int v n = (py_num v = Some (of_int n))"

record accuracy_metrics =
  accuracy :: real
  precision :: real
  recall :: real
  f1_score :: real
  true_positives :: nat
  false_positives :: nat
  true_negatives :: nat
  false_negatives :: nat
  total_samples :: nat

text \<open>\<open>calculate_accuracy_metrics\<close>; the empty dictionary it returns is \<open>None\<close>.\<close>

definition calculate_accuracy_metrics :: "pydict list \<Rightarrow> accuracy_metrics option" where
  "calculate_accuracy_metrics results =
    (if results = [] then None
     else let valid_results = [r \<leftarrow> results. has_key r ''ground_truth'' \<and> has_key r ''prediction'']
      in if valid_results = [] then None
      else let pairs = map (\<lambda>r. (dict_get0 r ''prediction'', dict_get0 r ''ground_truth'')) valid_results;
               tp = length [pg \<leftarrow> pairs. py_eq_int (fst pg) 1 \<and> py_eq_int (snd pg) 1];
               fp = length [pg \<leftarrow> pairs. py_eq_int (fst pg) 1 \<and> py_eq_int (snd pg) 0];
               tn = length [pg \<leftarrow> pairs. py_eq_int (fst pg) 0 \<and> py_eq_int (snd pg) 0];
               fn = length [pg \<leftarrow> pairs. py_eq_int (fst pg) 0 \<and> py_eq_int (snd pg) 1];
               precision = (if tp + fp > 0 then real tp / real (tp + fp) else 0);
               recall = (if tp + fn > 0 then real tp / real (tp + fn) else 0);
               f1 = (if precision + recall > 0 then 2 * (precision * recall) / (precision + recall) else 0);
               accuracy = real (tp + tn) / real (length valid_results)
           in Some \<lparr>accuracy = accuracy, precision = precision, recall = recall, f1_score = f1,
                     true_positives = tp, false_positives = fp, true_negatives = tn,
                     false_negatives = fn, total_samples = length valid_results\<rparr>)"

text \<open>What a row that went through adds to the results.\<close>

definition labelled_result :: "pydict \<Rightarrow> pydict \<Rightarrow> pydict" where
  "labelled_result row result =
    (let result = dict_put result ''ground_truth'' (dict_get row ''Is Laundering'' (PyInt 0))
     in dict_put result ''prediction''
          (PyInt (if in_strs (dict_get0 result ''risk_level'') [''High'', ''Critical''] then 1 else 0)))"

text \<open>Whether a row goes through, and the result it then leaves.\<close>

definition succeeded :: "(int \<Rightarrow> pydict \<Rightarrow> py_error + pydict) \<Rightarrow> int \<times> pydict \<Rightarrow> bool" where
  "succeeded investigate indexed_row = (\<not> isl (investigate (fst indexed_row) (snd indexed_row)))"

definition result_of :: "(int \<Rightarrow> pydict \<Rightarrow> py_error + pydict) \<Rightarrow> int \<times> pydict \<Rightarrow> pydict" where
  "result_of investigate indexed_row =
     (case investigate (fst indexed_row) (snd indexed_row) of
        Inr result \<Rightarrow> labelled_result (snd indexed_row) result | Inl e \<Rightarrow> [])"

section \<open>The screening stages on a store of list objects\<close>

text \<open>
  Whether a stage changes its input depends on which lists are shared, so here the lists
  live in a store and a state holds their addresses.  A store is the list of the list
  objects allocated so far, an address an index into it.  \<open>{**state, ...}\<close> copies the
  addresses, \<open>xs + ys\<close> allocates a new list, \<open>xs.append(v)\<close> changes the list at its
  address.
\<close>

type_synonym addr = nat
type_synonym store = "pyval list list"

definition list_at :: "store \<Rightarrow> addr \<Rightarrow> pyval list" where
  "list_at h a = (if a < length h then h ! a else [])"

definition new_list :: "store \<Rightarrow> pyval list \<Rightarrow> store \<times> addr" where
  "new_list h xs = (h @ [xs], length h)"

definition list_append :: "store \<Rightarrow> addr \<Rightarrow> pyval \<Rightarrow> store" where
  "list_append h a v = h[a := list_at h a @ [v]]"

text \<open>
  The part of the state the two screening stages touch: the transaction's entries other
  than \<open>parties\<close>, the address of the \<open>parties\<close> list when the transaction has one, the
  customer, and the addresses of the lists of the state.
\<close>

record state_refs =
  transaction_entries :: pydict
  parties_ref :: "addr option"
  customer_entries :: pydict
  decision_path_ref :: addr
  risk_factors_ref :: addr
  sanction_hits_ref :: addr
  pep_status_val :: "bool option"

definition update_path_refs :: "store \<Rightarrow> state_refs \<Rightarrow> string \<Rightarrow> store \<times> state_refs" where
  "update_path_refs h state step =
    (let (h, a) = new_list h (list_at h (decision_path_ref state) @ [PyStr step])
     in (h, state\<lparr>decision_path_ref := a\<rparr>))"

definition pep_screening_refs :: "store \<Rightarrow> state_refs \<Rightarrow> store \<times> (py_error + state_refs)" where
  "pep_screening_refs h0 state0 =
    (let (h, state) = update_path_refs h0 state0 ''pep_check'';
         customer_name = dict_get (customer_entries state) ''name'' (PyStr [])
     in case check_pep_database customer_name of
          Inl e \<Rightarrow> (h, Inl e)
        | Inr is_pep \<Rightarrow>
            let risk_factors = risk_factors_ref state;
                h = (if is_pep then list_append h risk_factors (PyStr ''PEP_CUSTOMER'') else h)
            in (h, Inr (state\<lparr>pep_status_val := Some is_pep, risk_factors_ref := risk_factors\<rparr>)))"

definition sanctions_screening_refs :: "store \<Rightarrow> state_refs \<Rightarrow> store \<times> (py_error + state_refs)" where
  "sanctions_screening_refs h0 state0 =
    (let (h, state) = update_path_refs h0 state0 ''sanctions_check'';
         (h, parties) = (case parties_ref state of Some a \<Rightarrow> (h, a) | None \<Rightarrow> new_list h []);
         h = list_append h parties (dict_get (customer_entries state) ''name'' (PyStr []));
         h = list_append h parties (dict_get (transaction_entries state) ''counterparty_id'' (PyStr []))
     in case check_sanctions_list (list_at h parties) of
          Inl e \<Rightarrow> (h, Inl e)
        | Inr hits \<Rightarrow>
            let (h, hits_ref) = new_list h (map PyStr hits);
                (h, factors_ref) = new_list h (list_at h (risk_factors_ref state)
                                     @ map (\<lambda>hit. PyStr (''SANCTION_HIT_'' @ hit)) hits)
            in (h, Inr (state\<lparr>sanction_hits_ref := hits_ref, risk_factors_ref := factors_ref\<rparr>)))"

section \<open>Concrete inputs\<close>

text \<open>A runtime whose string parsers reject every string; the inputs below hold numbers.\<close>

definition rt0 :: pyrt where
  "rt0 = \<lparr>float_of_str = (\<lambda>s. None), int_of_str = (\<lambda>s. None),
          fromisoformat = (\<lambda>s. None), str_of = (\<lambda>v. case v of PyStr s \<Rightarrow> s | _ \<Rightarrow> [])\<rparr>"

text \<open>One sanction hit and nothing else.\<close>

definition one_hit_state :: aml_state where
  "one_hit_state = (initial_state [] [] [])\<lparr>sanction_hits := [''terror_group_abc'']\<rparr>"

text \<open>A 5,000 transfer out of a flagged bank by a customer whose account is 3 days old.\<close>

definition flagged_young_state :: aml_state where
  "flagged_young_state =
     initial_state []
       [(''amount'', PyFloat 5000), (''from_bank'', PyStr ''03208''), (''to_bank'', PyStr ''011'')]
       [(''name'', PyStr ''Alice''), (''account_age_days'', PyInt 3)]"

text \<open>
  An outside world in which the language model finds no risk code, the clock stands
  still and the hash is constant.
\<close>

definition env0 :: env where
  "env0 = \<lparr>runtime = rt0, llm_codes = (\<lambda>topic s. Inr []), now = (\<lambda>s k. 1700000000000000),
           sha256_hexdigest =
             (\<lambda>x. ''9f86d081884c7d659a2feaa0c55ad015a3bf4f1b2b0b822cd15d6c15b0f00a08'')\<rparr>"

definition alice :: pydict where
  "alice = [(''name'', PyStr ''Alice''), (''account_age_days'', PyInt 400)]"

text \<open>A payment of 500 to a sanctioned counterparty, and its canonical form.\<close>

definition sanctioned_tx :: pydict where
  "sanctioned_tx = [(''transaction_id'', PyStr ''T1''), (''amount'', PyFloat 500),
     (''counterparty_id'', PyStr ''Terror_Group_ABC Holdings'')]"

definition sanctioned_unified :: pydict where
  "sanctioned_unified =
     [(''transaction_id'', PyStr ''T1''), (''customer_id'', PyStr ''unknown''),
      (''counterparty_id'', PyStr ''Terror_Group_ABC Holdings''),
      (''amount'', PyFloat 500), (''currency'', PyStr ''USD''),
      (''transaction_type'', PyStr ''unknown''), (''transaction_date'', PyStr []),
      (''location'', PyStr ''Unknown''), (''country'', PyStr ''Unknown''),
      (''description'', PyStr []), (''status'', PyStr ''completed''),
      (''asset_type'', PyStr ''FIAT''), (''crypto_details'', PyNone),
      (''origin_country'', PyNone), (''destination_country'', PyNone),
      (''intermediate_countries'', PyList []), (''documents'', PyList [])]"

definition sar_final :: aml_state where
  "sar_final = (initial_state sanctioned_tx sanctioned_unified alice)
     \<lparr>alerts := [''MISSING_DOCUMENTS''],
      risk_factors := [''SANCTION_HIT_Terror_Group_ABC Holdings''],
      decision_path := [''start'', ''document_analysis'', ''behavior_analysis'',
                        ''sanctions_check'', ''sar_generation''],
      sanction_hits := [''Terror_Group_ABC Holdings''],
      reporting_status := Some ''SAR_FILED'',
      case_id := Some ''9f86d081884c'',
      sar_timestamp := Some 1700000000000000\<rparr>"

text \<open>A payment of 500 to an unremarkable counterparty, and its canonical form.\<close>

definition quiet_tx :: pydict where
  "quiet_tx = [(''transaction_id'', PyStr ''T2''), (''amount'', PyFloat 500),
     (''counterparty_id'', PyStr ''Bob'')]"

definition quiet_unified :: pydict where
  "quiet_unified =
     [(''transaction_id'', PyStr ''T2''), (''customer_id'', PyStr ''unknown''),
      (''counterparty_id'', PyStr ''Bob''),
      (''amount'', PyFloat 500), (''currency'', PyStr ''USD''),
      (''transaction_type'', PyStr ''unknown''), (''transaction_date'', PyStr []),
      (''location'', PyStr ''Unknown''), (''country'', PyStr ''Unknown''),
      (''description'', PyStr []), (''status'', PyStr ''completed''),
      (''asset_type'', PyStr ''FIAT''), (''crypto_details'', PyNone),
      (''origin_country'', PyNone), (''destination_country'', PyNone),
      (''intermediate_countries'', PyList []), (''documents'', PyList [])]"

definition quiet_final :: aml_state where
  "quiet_final = (initial_state quiet_tx quiet_unified alice)
     \<lparr>risk_score := 10,
      alerts := [''MISSING_DOCUMENTS''],
      decision_path := [''start'', ''document_analysis'', ''behavior_analysis'',
                        ''sanctions_check'', ''pep_check'', ''risk_scoring''],
      pep_status := Some False\<rparr>"

text \<open>Four payments of 100 within three hours.\<close>

definition small_payments_state :: aml_state where
  "small_payments_state =
     initial_state [] [(''amount'', PyFloat 100)]
       [(''name'', PyStr ''Alice''),
        (''transaction_history'', PyList
           [PyDict [(''amount'', PyFloat 100), (''timestamp'', PyDatetime False 1699996400000000)],
            PyDict [(''amount'', PyFloat 100), (''timestamp'', PyDatetime False 1699992800000000)],
            PyDict [(''amount'', PyFloat 100), (''timestamp'', PyDatetime False 1699989200000000)]])]"

definition small_payments_final :: aml_state where
  "small_payments_final = small_payments_state
     \<lparr>alerts := [''STRUCTURING_PATTERN''], decision_path := [''behavior_analysis''],
      structuring_detected := True\<rparr>"

text \<open>Payments of 9,600: three in the hours before the current one, one 30 days before.\<close>

definition near_threshold_history :: "pydict list" where
  "near_threshold_history =
     [[(''amount'', PyFloat 9600), (''timestamp'', PyDatetime False 1699996400000000)],
      [(''amount'', PyFloat 9600), (''timestamp'', PyDatetime False 1699992800000000)],
      [(''amount'', PyFloat 9600), (''timestamp'', PyDatetime False 1699989200000000)],
      [(''amount'', PyFloat 9600), (''timestamp'', PyDatetime False 1697408000000000)]]"

definition near_threshold_state :: aml_state where
  "near_threshold_state =
     initial_state [] [(''amount'', PyFloat 9600)]
       [(''name'', PyStr ''Alice''),
        (''transaction_history'', PyList (map PyDict near_threshold_history))]"

text \<open>
  A runtime that parses the ISO dates used below: five naive ones and one with an
  offset (microseconds since 1970).
\<close>

definition iso_rt :: pyrt where
  "iso_rt = rt0\<lparr>fromisoformat := map_of
     [(''2024-01-01T00:00:00'', (False, 1704067200000000)),
      (''2024-01-01T01:00:00'', (False, 1704070800000000)),
      (''2024-01-01T02:00:00'', (False, 1704074400000000)),
      (''2024-01-01T20:00:00'', (False, 1704139200000000)),
      (''2024-01-02T16:00:00'', (False, 1704211200000000)),
      (''2024-01-01T00:00:00+00:00'', (True, 1704067200000000))]\<rparr>"

text \<open>Three payments to one recipient within two hours; three payments 20 hours apart.\<close>

definition two_hour_payments :: "pydict list" where
  "two_hour_payments =
     [[(''transaction_date'', PyStr ''2024-01-01T02:00:00''), (''counterparty_id'', PyStr ''R1''),
       (''amount'', PyFloat 4998)],
      [(''transaction_date'', PyStr ''2024-01-01T00:00:00''), (''counterparty_id'', PyStr ''R1''),
       (''amount'', PyFloat 4990)],
      [(''transaction_date'', PyStr ''2024-01-01T01:00:00''), (''counterparty_id'', PyStr ''R1''),
       (''amount'', PyFloat 5005)]]"

definition spread_payments :: "pydict list" where
  "spread_payments =
     [[(''transaction_date'', PyStr ''2024-01-01T00:00:00''), (''counterparty_id'', PyStr ''R1''),
       (''amount'', PyFloat 5000)],
      [(''transaction_date'', PyStr ''2024-01-01T20:00:00''), (''counterparty_id'', PyStr ''R1''),
       (''amount'', PyFloat 5000)],
      [(''transaction_date'', PyStr ''2024-01-02T16:00:00''), (''counterparty_id'', PyStr ''R1''),
       (''amount'', PyFloat 5000)]]"

definition two_hour_sorted :: "pydict list" where
  "two_hour_sorted =
     [[(''transaction_date'', PyStr ''2024-01-01T00:00:00''), (''counterparty_id'', PyStr ''R1''),
       (''amount'', PyFloat 4990)],
      [(''transaction_date'', PyStr ''2024-01-01T01:00:00''), (''counterparty_id'', PyStr ''R1''),
       (''amount'', PyFloat 5005)],
      [(''transaction_date'', PyStr ''2024-01-01T02:00:00''), (''counterparty_id'', PyStr ''R1''),
       (''amount'', PyFloat 4998)]]"

definition two_hour_group :: coordinated_group where
  "two_hour_group = \<lparr>transactions = two_hour_sorted, coordination_score = 1,
      time_window = PyStr ''2024-01-01T00:00:00'', participant_count = 3\<rparr>"

text \<open>
  A batch of three rows whose second investigation fails (the analyser times out), the
  other two being rated High.
\<close>

definition investigate0 :: "int \<Rightarrow> pydict \<Rightarrow> py_error + pydict" where
  "investigate0 idx row =
     (if dict_get0 row ''Account'' = PyStr ''timeout'' then Inl LLMError
      else Inr [(''risk_level'', PyStr ''High''), (''risk_score'', PyInt 80)])"

definition three_rows :: "(int \<times> pydict) list" where
  "three_rows =
     [(0, [(''Account'', PyStr ''A1''), (''Is Laundering'', PyInt 1)]),
      (1, [(''Account'', PyStr ''timeout''), (''Is Laundering'', PyInt 1)]),
      (2, [(''Account'', PyStr ''A3''), (''Is Laundering'', PyInt 0)])]"

definition zero_stats :: processing_stats where
  "zero_stats = \<lparr>total_processed = 0, escalated_cases = 0, sar_cases = 0, pending_approvals = 0,
      errors = 0\<rparr>"

text \<open>
  A store with a decision path (address 0), the risk factors found so far (address 1),
  no sanction hits (address 2) and a \<open>parties\<close> list (address 3); the state of a customer
  called Minister Smith.
\<close>

definition minister_store :: store where
  "minister_store = [[PyStr ''start''], [PyStr ''HIGH_RISK_IR''], [], [PyStr ''Acme Ltd'']]"

definition minister_state :: state_refs where
  "minister_state =
     \<lparr>transaction_entries = [(''counterparty_id'', PyStr ''Bob''), (''amount'', PyFloat 500)],
      parties_ref = Some 3,
      customer_entries = [(''name'', PyStr ''Minister Smith'')],
      decision_path_ref = 0, risk_factors_ref = 1, sanction_hits_ref = 2,
      pep_status_val = None\<rparr>"

text \<open>
  The same payment by a customer called Minister Smith: a PEP, scored 45 and sent to
  the human review.
\<close>

definition minister_smith :: pydict where
  "minister_smith = [(''name'', PyStr ''Minister Smith''), (''account_age_days'', PyInt 400)]"

definition review_final :: aml_state where
  "review_final = (initial_state quiet_tx quiet_unified minister_smith)
     \<lparr>risk_score := 45,
      alerts := [''MISSING_DOCUMENTS''],
      risk_factors := [''PEP_CUSTOMER''],
      decision_path := [''start'', ''document_analysis'', ''behavior_analysis'',
                        ''sanctions_check'', ''pep_check'', ''enhanced_dd'', ''risk_scoring'',
                        ''human_review''],
      pep_status := Some True,
      reporting_status := Some ''HUMAN_REVIEW'',
      review_status := Some ''PENDING'',
      review_deadline := Some 1700086400000000\<rparr>"

text \<open>
  A history whose timestamps end in \<open>Z\<close>, for a current transaction without a timestamp
  of its own.
\<close>

definition zulu_state :: aml_state where
  "zulu_state =
     initial_state [] [(''amount'', PyFloat 100)]
       [(''name'', PyStr ''Alice''),
        (''transaction_history'', PyList
           [PyDict [(''amount'', PyFloat 100), (''timestamp'', PyStr ''2024-01-01T00:00:00Z'')]])]"

text \<open>A raw record with none of the sentinel keys.\<close>

definition unknown_shape_record :: pydict where
  "unknown_shape_record = [(''id'', PyInt 17), (''value'', PyFloat 250)]"

section \<open>The wording of the specification\<close>

text \<open>
  The successor of the initial screening in the priority order of the specification:
  crypto, then a large amount or a flagged bank, then a new account, else the document
  check.
\<close>

definition spec_initial_successor :: "aml_state \<Rightarrow> node" where
  "spec_initial_successor s =
    (let tx = transaction s in
     if dict_get0 tx ''asset_type'' = PyStr ''CRYPTO'' then CryptoAnalysis
     else if (case py_num (dict_get tx ''amount'' (PyInt 0)) of Some a \<Rightarrow> a > 100000 | None \<Rightarrow> False)
             \<or> in_strs (dict_get0 tx ''from_bank'') HIGH_RISK_BANKS
             \<or> in_strs (dict_get0 tx ''to_bank'') HIGH_RISK_BANKS then GeoAnalysis
     else if (case py_num (dict_get (customer s) ''account_age_days'' (PyInt 365)) of
                Some d \<Rightarrow> d < 7 | None \<Rightarrow> False) then Edd
     else DocumentCheck)"

text \<open>
  The structuring flag as the specification words it: more than 3 of the amounts in the
  window lie in the band from 95% of the threshold up to the threshold.
\<close>

definition spec_structuring_pattern :: "real \<Rightarrow> real list \<Rightarrow> bool" where
  "spec_structuring_pattern threshold amounts =
     (length (filter (\<lambda>a. 0.95 * threshold \<le> a \<and> a < threshold) amounts) > 3)"

text \<open>
  The windows as the specification words them: consecutive transactions are chained
  while the gap from one to the next is within the time window.  The scores and the
  thresholds are those of the code.
\<close>

fun spec_chain_loop :: "pyrt \<Rightarrow> int \<Rightarrow> pydict list \<Rightarrow> pydict list list \<Rightarrow> pydict list \<Rightarrow> pydict list list" where
  "spec_chain_loop r hours current_group groups [] =
     (if current_group \<noteq> [] then groups @ [current_group] else groups)"
| "spec_chain_loop r hours [] groups (tx # txs) = spec_chain_loop r hours [tx] groups txs"
| "spec_chain_loop r hours (first # others) groups (tx # txs) =
     (if within_time_window r (last (first # others)) tx hours
      then spec_chain_loop r hours ((first # others) @ [tx]) groups txs
      else spec_chain_loop r hours [tx] (groups @ [first # others]) txs)"

definition spec_detect_smurfing :: "pyrt \<Rightarrow> pydict list \<Rightarrow> int \<Rightarrow> bool" where
  "spec_detect_smurfing r related_transactions time_window_hours =
    (case ebind (sorted_transactions related_transactions) (\<lambda>sorted_txs.
            coordinated_groups_of r (spec_chain_loop r time_window_hours [] [] sorted_txs)) of
       Inl e \<Rightarrow> False
     | Inr groups \<Rightarrow> calculate_smurfing_score groups > 0.7)"

section \<open>Risk scoring: the weighted sum\<close>

lemma risk_scoring_sum:
  "risk_score (risk_scoring s) =
     min 100 (40 * int (length (sanction_hits s))
            + 35 * (if pep_status s = Some True then 1 else 0)
            + 25 * int (length (filter (str_in ''CRYPTO'') (risk_factors s)))
            + 20 * int (length (filter (\<lambda>rf. str_in ''HIGH_RISK'' rf \<or> str_in ''TAX_HAVEN'' rf)
                                  (risk_factors s)))
            + 15 * int (length (document_risks s))
            + 10 * int (length (alerts s))
            + 30 * (if structuring_detected s then 1 else 0)
            + 30 * (if smurfing_detected s then 1 else 0))"
proof -
  have if_add: "(if b then x + c else x) = x + c * (if b then 1 else 0)" for b and x c :: int
    by simp
  show ?thesis
    unfolding risk_scoring_def update_path_def Let_def if_add
    by (simp split del: if_split add: min.commute)
qed

lemma risk_scoring_bounds:
  "0 \<le> risk_score (risk_scoring s) \<and> risk_score (risk_scoring s) \<le> 100"
proof -
  have nn: "0 \<le> (35::int) * (if b then 1 else 0)" for b by simp
  have nn2: "0 \<le> (30::int) * (if b then 1 else 0)" for b by simp
  define W where "W = 40 * int (length (sanction_hits s))
            + 35 * (if pep_status s = Some True then 1 else 0)
            + 25 * int (length (filter (str_in ''CRYPTO'') (risk_factors s)))
            + 20 * int (length (filter (\<lambda>rf. str_in ''HIGH_RISK'' rf \<or> str_in ''TAX_HAVEN'' rf)
                                  (risk_factors s)))
            + 15 * int (length (document_risks s))
            + 10 * int (length (alerts s))
            + 30 * (if structuring_detected s then 1 else 0)
            + 30 * (if smurfing_detected s then 1 else 0)"
  have W0: "0 \<le> W"
    unfolding W_def by (intro add_nonneg_nonneg nn nn2) simp_all
  have eq: "risk_score (risk_scoring s) = min 100 W"
    unfolding W_def by (rule risk_scoring_sum)
  show ?thesis unfolding eq using W0 by simp
qed

lemma risk_scoring_fresh:
  "risk_score (risk_scoring (s\<lparr>risk_score := r\<rparr>)) = risk_score (risk_scoring s)"
  unfolding risk_scoring_sum by (simp split del: if_split)

lemma risk_scoring_repeat:
  "risk_score (risk_scoring (risk_scoring s)) = risk_score (risk_scoring s)"
  unfolding risk_scoring_sum
  by (simp split del: if_split add: risk_scoring_def update_path_def Let_def)

text \<open>
  C1.  The score that \<open>risk_scoring\<close> stores is the minimum of 100 and the weighted sum
  40 per sanction hit, 35 for a PEP, 25 per risk factor containing CRYPTO, 20 per risk
  factor containing HIGH_RISK or TAX_HAVEN, 15 per document risk, 10 per alert, 30 for
  structuring and 30 for smurfing.  It lies between 0 and 100, it does not depend on the
  score the incoming state carries, and scoring an already scored state gives the same
  score again: nothing accumulates across invocations.
\<close>

theorem risk_scoring_weighted_sum:
  "risk_score (risk_scoring s) =
     min 100 (40 * int (length (sanction_hits s))
            + 35 * (if pep_status s = Some True then 1 else 0)
            + 25 * int (length (filter (str_in ''CRYPTO'') (risk_factors s)))
            + 20 * int (length (filter (\<lambda>rf. str_in ''HIGH_RISK'' rf \<or> str_in ''TAX_HAVEN'' rf)
                                  (risk_factors s)))
            + 15 * int (length (document_risks s))
            + 10 * int (length (alerts s))
            + 30 * (if structuring_detected s then 1 else 0)
            + 30 * (if smurfing_detected s then 1 else 0))
   \<and> 0 \<le> risk_score (risk_scoring s) \<and> risk_score (risk_scoring s) \<le> 100
   \<and> risk_score (risk_scoring (s\<lparr>risk_score := r\<rparr>)) = risk_score (risk_scoring s)
   \<and> risk_score (risk_scoring (risk_scoring s)) = risk_score (risk_scoring s)"
  using risk_scoring_sum [of s] risk_scoring_bounds [of s] risk_scoring_fresh [of r s]
    risk_scoring_repeat [of s]
  by blast

theorem risk_scoring_weighted_sum_witness:
  "risk_score (risk_scoring one_hit_state) = 40"
  using risk_scoring_weighted_sum [of one_hit_state 0]
  by (simp add: one_hit_state_def initial_state_def)

section \<open>Routing out of the scoring stage\<close>

text \<open>
  C4.  After \<open>score_risk\<close> the workflow goes to \<open>generate_sar\<close> exactly when the score is at
  least 65, to \<open>human_review\<close> exactly when it is at least 40 and below 65, and ends
  exactly when it is below 40.
\<close>

theorem score_risk_successor:
  "(next_node rt ScoreRisk s = Inr GenerateSar \<longleftrightarrow> risk_score s \<ge> 65)
   \<and> (next_node rt ScoreRisk s = Inr HumanReview \<longleftrightarrow> 40 \<le> risk_score s \<and> risk_score s < 65)
   \<and> (next_node rt ScoreRisk s = Inr END \<longleftrightarrow> risk_score s < 40)"
  by (simp add: route_risk_score_def score_risk_edges_def edge_lookup_def Let_def)

theorem score_risk_successor_witness:
  "next_node rt0 ScoreRisk (risk_scoring one_hit_state) = Inr HumanReview"
  using score_risk_successor [of rt0 "risk_scoring one_hit_state"]
    risk_scoring_sum [of one_hit_state]
  by (simp add: one_hit_state_def initial_state_def)

section \<open>Routing out of the initial screening\<close>

text \<open>
  C3, as the code has it.  When the amount converts to a float and the account age is a
  number, the successor of the initial screening is the crypto analysis for a crypto
  asset; otherwise the geographic analysis for an amount above 100,000; otherwise the
  enhanced due diligence for an account younger than 7 days; otherwise the geographic
  analysis when either bank is flagged; otherwise the document check.  The new-account
  test comes before the flagged-bank test.
\<close>

theorem initial_screening_successor:
  assumes "py_float rt (dict_get (transaction s) ''amount'' (PyInt 0)) = Inr amount"
    and "py_lt_num (dict_get (customer s) ''account_age_days'' (PyInt 365)) 7 = Inr young"
  shows "next_node rt InitialScreening s =
     Inr (if dict_get0 (transaction s) ''asset_type'' = PyStr ''CRYPTO'' then CryptoAnalysis
          else if amount > 100000 then GeoAnalysis
          else if young then Edd
          else if in_strs (dict_get0 (transaction s) ''from_bank'') HIGH_RISK_BANKS
                  \<or> in_strs (dict_get0 (transaction s) ''to_bank'') HIGH_RISK_BANKS
               then GeoAnalysis
          else DocumentCheck)"
  using assms
  by (simp add: route_initial_screening_def ebind_def Let_def edge_lookup_def
      initial_screening_edges_def)

theorem initial_screening_successor_witness:
  "py_float rt0 (dict_get (transaction flagged_young_state) ''amount'' (PyInt 0)) = Inr 5000
   \<and> py_lt_num (dict_get (customer flagged_young_state) ''account_age_days'' (PyInt 365)) 7 = Inr True
   \<and> next_node rt0 InitialScreening flagged_young_state = Inr Edd"
proof -
  have a: "py_float rt0 (dict_get (transaction flagged_young_state) ''amount'' (PyInt 0)) = Inr 5000"
    by (simp add: flagged_young_state_def initial_state_def dict_get_def)
  have b: "py_lt_num (dict_get (customer flagged_young_state) ''account_age_days'' (PyInt 365)) 7
             = Inr True"
    by (simp add: flagged_young_state_def initial_state_def dict_get_def py_lt_num_def)
  have "dict_get0 (transaction flagged_young_state) ''asset_type'' \<noteq> PyStr ''CRYPTO''"
    by (simp add: flagged_young_state_def initial_state_def dict_get_def dict_get0_def)
  with initial_screening_successor [OF a b] a b show ?thesis by simp
qed

text \<open>
  The priority order the specification gives fails on the code: a transfer of 5,000 out
  of the flagged bank 03208 by a customer whose account is 3 days old goes to the
  enhanced due diligence, where the specification sends it to the geographic analysis.
\<close>

theorem initial_screening_flagged_young_counterexample:
  "next_node rt0 InitialScreening flagged_young_state = Inr Edd
   \<and> spec_initial_successor flagged_young_state = GeoAnalysis"
  by (simp add: route_initial_screening_def ebind_def Let_def edge_lookup_def
      initial_screening_edges_def flagged_young_state_def initial_state_def dict_get_def
      dict_get0_def py_lt_num_def spec_initial_successor_def HIGH_RISK_BANKS_def)

section \<open>Canonicalisation of an unrecognised record\<close>

text \<open>
  C7, as the code has it.  A raw record with none of the sentinel keys \<open>From Bank\<close>,
  \<open>transaction_id\<close> and \<open>SENDER_ACCOUNT_ID\<close> is canonicalised to the empty dictionary; no
  error is raised for it.
\<close>

theorem unify_unrecognised_shape:
  assumes "\<not> has_key tx ''From Bank''" and "\<not> has_key tx ''transaction_id''"
    and "\<not> has_key tx ''SENDER_ACCOUNT_ID''"
  shows "unify_transaction_data rt tx = Inr []"
  using assms by (simp add: unify_transaction_data_def)

theorem unify_unrecognised_shape_witness:
  "\<not> has_key unknown_shape_record ''From Bank''
   \<and> \<not> has_key unknown_shape_record ''transaction_id''
   \<and> \<not> has_key unknown_shape_record ''SENDER_ACCOUNT_ID''
   \<and> unify_transaction_data rt0 unknown_shape_record = Inr []"
proof -
  have a: "\<not> has_key unknown_shape_record ''From Bank''"
    and b: "\<not> has_key unknown_shape_record ''transaction_id''"
    and c: "\<not> has_key unknown_shape_record ''SENDER_ACCOUNT_ID''"
    by (simp_all add: has_key_def unknown_shape_record_def)
  from unify_unrecognised_shape [OF a b c] a b c show ?thesis by simp
qed

text \<open>
  The record with the two keys \<open>id\<close> and \<open>value\<close> has an unrecognised shape, and its
  canonicalisation is not an error but the empty dictionary.
\<close>

theorem unify_unknown_shape_counterexample:
  "\<not> isl (unify_transaction_data rt0 unknown_shape_record)
   \<and> unify_transaction_data rt0 unknown_shape_record = Inr []"
  by (simp add: unify_transaction_data_def has_key_def unknown_shape_record_def)

section \<open>Every run visits a stage at most once\<close>

lemma ebind_Inr: "ebind m f = Inr y \<longleftrightarrow> (\<exists>x. m = Inr x \<and> f x = Inr y)"
  by (cases m) (simp_all add: ebind_def)

lemma run_END: "run e END s = ([], Inr s)"
  by (simp add: run.simps)

lemma run_depths:
  "sorted_wrt (\<lambda>a b. depth a < depth b) (fst (run e n s))
   \<and> (\<forall>v \<in> set (fst (run e n s)). depth n \<le> depth v \<and> v \<noteq> END)"
proof (induction e n s rule: run.induct)
  case (1 e n s)
  show ?case
  proof (cases "n = END")
    case True
    then show ?thesis by (simp add: run.simps)
  next
    case notEnd: False
    show ?thesis
    proof (cases "node_fn e n s")
      case (Inl err)
      with notEnd show ?thesis by (simp add: run.simps)
    next
      case (Inr s')
      show ?thesis
      proof (cases "next_node (runtime e) n s'")
        case (Inl err)
        with notEnd Inr show ?thesis by (simp add: run.simps)
      next
        case nn: (Inr n')
        have lt: "depth n < depth n'" using next_node_deeper [OF notEnd nn] .
        have IH: "sorted_wrt (\<lambda>a b. depth a < depth b) (fst (run e n' s'))
              \<and> (\<forall>v \<in> set (fst (run e n' s')). depth n' \<le> depth v \<and> v \<noteq> END)"
          using "1.IH"(1) [OF notEnd Inr nn] .
        have eq: "fst (run e n s) = n # fst (run e n' s')"
          using notEnd Inr nn by (subst run.simps) simp
        show ?thesis unfolding eq using IH lt notEnd by fastforce
      qed
    qed
  qed
qed

lemma run_distinct: "distinct (fst (run e n s))"
proof -
  have "sorted_wrt (\<lambda>a b. depth a < depth b) (fst (run e n s))" using run_depths by blast
  then have "sorted_wrt (\<lambda>a b. a \<noteq> b) (fst (run e n s))"
    by (rule sorted_wrt_mono_rel [rotated]) auto
  then show ?thesis by (simp add: distinct_conv_nth sorted_wrt_iff_nth_less) (metis nat_neq_iff)
qed

lemma node_fn_path:
  assumes "node_fn e n s = Inr s'" and "n \<noteq> END"
  shows "decision_path s' = decision_path s @ [stage_label n]"
proof (cases n)
  case CryptoAnalysis
  with assms show ?thesis
    by (auto simp: crypto_risk_analysis_def update_path_def Let_def ebind_Inr
        split: if_splits pyval.splits)
next
  case GeoAnalysis
  with assms show ?thesis
    by (auto simp: geographic_risk_assessment_def update_path_def Let_def ebind_Inr)
next
  case DocumentCheck
  with assms show ?thesis
    by (auto simp: document_analysis_def update_path_def Let_def ebind_Inr split: if_splits)
next
  case BehaviorCheck
  with assms show ?thesis
    by (auto simp: behavioral_analysis_def update_path_def Let_def ebind_Inr)
next
  case SanctionsCheck
  with assms show ?thesis
    by (auto simp: sanctions_screening_def update_path_def Let_def ebind_Inr split: pyval.splits)
next
  case PepCheck
  with assms show ?thesis
    by (auto simp: pep_screening_def update_path_def Let_def ebind_Inr)
next
  case Edd
  with assms show ?thesis
    by (auto simp: enhanced_due_diligence_def update_path_def Let_def ebind_Inr)
next
  case GenerateSar
  with assms show ?thesis
    by (auto simp: generate_sar_def update_path_def Let_def ebind_Inr)
qed (use assms in \<open>auto simp: update_path_def risk_scoring_def human_review_def Let_def\<close>)

lemma run_path:
  "snd (run e n s) = Inr sf \<Longrightarrow>
     decision_path sf = decision_path s @ map stage_label (fst (run e n s))"
proof (induction e n s rule: run.induct)
  case (1 e n s)
  show ?case
  proof (cases "n = END")
    case True
    with "1.prems" show ?thesis by (simp add: run.simps)
  next
    case notEnd: False
    show ?thesis
    proof (cases "node_fn e n s")
      case (Inl err)
      with notEnd "1.prems" show ?thesis by (simp add: run.simps)
    next
      case (Inr s')
      show ?thesis
      proof (cases "next_node (runtime e) n s'")
        case (Inl err)
        with notEnd Inr "1.prems" show ?thesis by (simp add: run.simps)
      next
        case nn: (Inr n')
        have eq: "run e n s = (n # fst (run e n' s'), snd (run e n' s'))"
          using notEnd Inr nn by (subst run.simps) simp
        with "1.prems" have "snd (run e n' s') = Inr sf" by simp
        from "1.IH"(1) [OF notEnd Inr nn this]
        have "decision_path sf = decision_path s' @ map stage_label (fst (run e n' s'))" .
        with node_fn_path [OF Inr notEnd] eq show ?thesis by simp
      qed
    qed
  qed
qed

lemma stage_label_inj: "a \<noteq> END \<Longrightarrow> b \<noteq> END \<Longrightarrow> stage_label a = stage_label b \<Longrightarrow> a = b"
  by (cases a; cases b; simp)

lemma next_node_no_KeyError: "next_node r n s \<noteq> Inl KeyError"
proof (cases n)
  case InitialScreening
  have "route_initial_screening r s = Inr key \<Longrightarrow> edge_lookup initial_screening_edges key \<noteq> Inl KeyError" for key
    by (auto simp: route_initial_screening_def Let_def ebind_def edge_lookup_def
        initial_screening_edges_def split: if_splits sum.splits)
  moreover have "route_initial_screening r s \<noteq> Inl KeyError"
    by (auto simp: route_initial_screening_def Let_def ebind_def py_lt_num_def
        split: if_splits sum.splits option.splits elim: py_float.elims)
  ultimately show ?thesis using InitialScreening
    by (cases "route_initial_screening r s") (auto simp: ebind_def)
qed (auto simp: edge_lookup_def crypto_analysis_edges_def route_crypto_analysis_def
      sanctions_check_edges_def route_sanctions_check_def pep_check_edges_def route_pep_check_def
      score_risk_edges_def route_risk_score_def Let_def)

text \<open>
  C2.  A run of the workflow from the initial screening is a total function of the
  outside world and the starting state.  The nodes it runs are pairwise different, and
  so are the names they append to the decision path; \<open>END\<close> is not among them.  The
  routing is total: no router ever returns a key its edge table lacks.  The graph is
  acyclic: every edge leads to a strictly deeper node.  When the run reaches \<open>END\<close>, the
  decision path of the final state is the starting path followed by the names of the
  nodes that ran, each once.
\<close>

theorem workflow_visits_each_stage_once:
  "distinct (fst (run e InitialScreening s))
   \<and> distinct (map stage_label (fst (run e InitialScreening s)))
   \<and> END \<notin> set (fst (run e InitialScreening s))
   \<and> next_node r n s' \<noteq> Inl KeyError
   \<and> (n \<noteq> END \<and> next_node r n s' = Inr n' \<longrightarrow> depth n < depth n')
   \<and> (snd (run e InitialScreening s) = Inr sf \<longrightarrow>
        decision_path sf = decision_path s @ map stage_label (fst (run e InitialScreening s)))"
proof -
  have d: "distinct (fst (run e InitialScreening s))" by (rule run_distinct)
  have noEnd: "END \<notin> set (fst (run e InitialScreening s))"
    using run_depths [of e InitialScreening s] by blast
  have "inj_on stage_label (set (fst (run e InitialScreening s)))"
    using noEnd by (intro inj_onI) (metis stage_label_inj)
  with d have "distinct (map stage_label (fst (run e InitialScreening s)))"
    by (simp add: distinct_map)
  with d noEnd show ?thesis
    using next_node_no_KeyError [of r n s'] next_node_deeper [of n r s' n'] run_path [of e InitialScreening s sf]
    by blast
qed

theorem workflow_visits_each_stage_once_witness:
  "snd (run env0 InitialScreening (initial_state quiet_tx quiet_unified alice)) = Inr quiet_final
   \<and> fst (run env0 InitialScreening (initial_state quiet_tx quiet_unified alice))
       = [InitialScreening, DocumentCheck, BehaviorCheck, SanctionsCheck, PepCheck, ScoreRisk]
   \<and> decision_path quiet_final = [''start'', ''document_analysis'', ''behavior_analysis'',
        ''sanctions_check'', ''pep_check'', ''risk_scoring'']
   \<and> next_node rt0 ScoreRisk quiet_final = Inr END
   \<and> depth ScoreRisk < depth END"
proof -
  have fin: "snd (run env0 InitialScreening (initial_state quiet_tx quiet_unified alice)) = Inr quiet_final"
    by code_simp
  have vis: "fst (run env0 InitialScreening (initial_state quiet_tx quiet_unified alice))
       = [InitialScreening, DocumentCheck, BehaviorCheck, SanctionsCheck, PepCheck, ScoreRisk]"
    by code_simp
  have nxt: "next_node rt0 ScoreRisk quiet_final = Inr END"
    by code_simp
  have start: "decision_path (initial_state quiet_tx quiet_unified alice) = []"
    by (simp add: initial_state_def)
  from workflow_visits_each_stage_once [of env0 "initial_state quiet_tx quiet_unified alice"
      rt0 ScoreRisk quiet_final END quiet_final] fin vis nxt start
  show ?thesis by simp
qed

section \<open>Case numbers and dispositions\<close>

lemma node_fn_frame:
  assumes "node_fn e n s = Inr s'" and "n \<noteq> GenerateSar" and "n \<noteq> HumanReview"
  shows "case_id s' = case_id s \<and> reporting_status s' = reporting_status s
     \<and> review_status s' = review_status s \<and> review_deadline s' = review_deadline s"
proof (cases n)
  case CryptoAnalysis
  with assms show ?thesis
    by (auto simp: crypto_risk_analysis_def update_path_def Let_def ebind_Inr
        split: if_splits pyval.splits)
next
  case GeoAnalysis
  with assms show ?thesis
    by (auto simp: geographic_risk_assessment_def update_path_def Let_def ebind_Inr)
next
  case DocumentCheck
  with assms show ?thesis
    by (auto simp: document_analysis_def update_path_def Let_def ebind_Inr split: if_splits)
next
  case BehaviorCheck
  with assms show ?thesis
    by (auto simp: behavioral_analysis_def update_path_def Let_def ebind_Inr)
next
  case SanctionsCheck
  with assms show ?thesis
    by (auto simp: sanctions_screening_def update_path_def Let_def ebind_Inr split: pyval.splits)
next
  case PepCheck
  with assms show ?thesis
    by (auto simp: pep_screening_def update_path_def Let_def ebind_Inr)
next
  case Edd
  with assms show ?thesis
    by (auto simp: enhanced_due_diligence_def update_path_def Let_def ebind_Inr)
qed (use assms in \<open>auto simp: update_path_def risk_scoring_def Let_def\<close>)

lemma next_node_END:
  assumes "n \<noteq> END" and "next_node r n s = Inr END"
  shows "n = GenerateSar \<or> n = HumanReview \<or> (n = ScoreRisk \<and> risk_score s < 40)"
proof (cases n)
  case InitialScreening
  with assms(2) obtain key where "edge_lookup initial_screening_edges key = Inr END"
    by (auto simp: ebind_def split: sum.splits)
  from edge_lookup_cases [OF this] show ?thesis
    by (auto simp: initial_screening_edges_def)
next
  case CryptoAnalysis
  with assms(2) have "edge_lookup crypto_analysis_edges (route_crypto_analysis s) = Inr END"
    by simp
  from edge_lookup_cases [OF this] show ?thesis
    by (auto simp: crypto_analysis_edges_def)
next
  case SanctionsCheck
  with assms(2) have "edge_lookup sanctions_check_edges (route_sanctions_check s) = Inr END"
    by simp
  from edge_lookup_cases [OF this] show ?thesis
    by (auto simp: sanctions_check_edges_def)
next
  case PepCheck
  with assms(2) have "edge_lookup pep_check_edges (route_pep_check s) = Inr END"
    by simp
  from edge_lookup_cases [OF this] show ?thesis
    by (auto simp: pep_check_edges_def)
next
  case ScoreRisk
  with assms(2) show ?thesis
    by (auto simp: route_risk_score_def score_risk_edges_def edge_lookup_def Let_def
        split: if_splits)
qed (use assms in auto)

lemma run_nonempty: "n \<noteq> END \<Longrightarrow> fst (run e n s) \<noteq> []"
  by (subst run.simps) (simp split: sum.splits)

lemma run_disposition:
  "unreported s \<Longrightarrow> n \<noteq> END \<Longrightarrow> snd (run e n s) = Inr sf \<Longrightarrow>
     (last (fst (run e n s)) = GenerateSar \<and> reporting_status sf = Some ''SAR_FILED''
        \<and> (\<exists>s'. case_id sf = Some (generate_case_id e s')))
     \<or> (last (fst (run e n s)) = HumanReview \<and> reporting_status sf = Some ''HUMAN_REVIEW''
        \<and> case_id sf = None \<and> review_status sf = Some ''PENDING''
        \<and> review_deadline sf = Some (now e (sf\<lparr>reporting_status := None, review_status := None,
              review_deadline := None\<rparr>) 0 + 24 * 3600 * 1000000))
     \<or> (last (fst (run e n s)) = ScoreRisk \<and> unreported sf \<and> risk_score sf < 40)"
proof (induction e n s rule: run.induct)
  case (1 e n s)
  note notEnd = \<open>n \<noteq> END\<close>
  show ?case
  proof (cases "node_fn e n s")
    case (Inl err)
    with notEnd "1.prems" show ?thesis by (simp add: run.simps)
  next
    case (Inr s')
    show ?thesis
    proof (cases "next_node (runtime e) n s'")
      case (Inl err)
      with notEnd Inr "1.prems" show ?thesis by (simp add: run.simps)
    next
      case nn: (Inr n')
      have eq: "run e n s = (n # fst (run e n' s'), snd (run e n' s'))"
        using notEnd Inr nn by (subst run.simps) simp
      with "1.prems" have fin: "snd (run e n' s') = Inr sf" by simp
      show ?thesis
      proof (cases "n' = END")
        case True
        with fin have sf: "sf = s'" by (simp add: run.simps)
        from True eq have vs: "last (fst (run e n s)) = n" by (simp add: run.simps)
        from next_node_END [OF notEnd] nn True
        consider (sar) "n = GenerateSar" | (hr) "n = HumanReview"
          | (low) "n = ScoreRisk" "risk_score s' < 40" by blast
        then show ?thesis
        proof cases
          case sar
          with Inr sf vs show ?thesis
            by (auto simp: generate_sar_def Let_def ebind_Inr)
        next
          case hr
          with Inr have hrs: "s' = human_review e s" by simp
          have reset_eq: "(human_review e s)\<lparr>reporting_status := None, review_status := None,
              review_deadline := None\<rparr> = update_path s ''human_review''"
            using "1.prems"(1)
            by (cases s) (simp add: human_review_def Let_def unreported_def update_path_def)
          have "reporting_status (human_review e s) = Some ''HUMAN_REVIEW''
            \<and> case_id (human_review e s) = None
            \<and> review_status (human_review e s) = Some ''PENDING''
            \<and> review_deadline (human_review e s)
                = Some (now e (update_path s ''human_review'') 0 + 24 * 3600 * 1000000)"
            using "1.prems"(1)
            by (simp add: human_review_def Let_def unreported_def update_path_def)
          with reset_eq hrs sf vs hr show ?thesis by simp
        next
          case low
          have "n \<noteq> GenerateSar" "n \<noteq> HumanReview" using low by simp_all
          from node_fn_frame [OF Inr this] "1.prems"(1) have "unreported s'"
            by (simp add: unreported_def)
          with low sf vs show ?thesis by simp
        qed
      next
        case False
        have other: "n \<noteq> GenerateSar" "n \<noteq> HumanReview"
          using nn False by auto
        from node_fn_frame [OF Inr other] "1.prems"(1) have un: "unreported s'"
          by (simp add: unreported_def)
        from run_nonempty [OF False] eq
        have vs: "last (fst (run e n s)) = last (fst (run e n' s'))" by simp
        from "1.IH"(1) [OF notEnd Inr nn un False fin] show ?thesis
          unfolding vs .
      qed
    qed
  qed
qed

lemma node_fn_case_id:
  assumes "node_fn e n s = Inr s'" and "n \<noteq> GenerateSar"
  shows "case_id s' = case_id s"
proof (cases "n = HumanReview")
  case True
  with assms show ?thesis by (auto simp: human_review_def update_path_def Let_def)
next
  case False
  from node_fn_frame [OF assms(1) assms(2) False] show ?thesis by simp
qed

lemma run_analysis_refused:
  "unify_transaction_data (runtime e) tx = Inr u \<Longrightarrow> run_analysis e tx cust = Inl ValueError"
  by (simp add: run_analysis_def invoke_def ebind_def)

text \<open>
  C10.  Take an outside world whose hash is never empty and a run of the graph from the
  initial state of \<open>run_analysis\<close> that reaches \<open>END\<close>.  In the final state the case number
  is set exactly when the reporting status is \<open>SAR_FILED\<close>, and that is exactly when the
  run ended in \<open>generate_sar\<close>.  The status is \<open>HUMAN_REVIEW\<close> exactly when the run ended
  in \<open>human_review\<close>, and then there is no case number, the review is pending and the
  deadline is 24 hours after the clock reading of the review stage.  There is no status
  exactly when the run ended in \<open>score_risk\<close> (the case is closed), and then there is no
  case number.  No node but \<open>generate_sar\<close> changes the case number.  The storing step
  of \<open>analyze_transaction\<close> puts the report of the final state into the global index,
  under its case number, exactly when the status is \<open>SAR_FILED\<close>, and leaves the index as
  it was otherwise.  \<open>analyze_transaction\<close> itself never changes the index: its
  invocation of the graph names no thread and is refused.
\<close>

theorem case_id_iff_sar_filed:
  assumes "\<forall>x. sha256_hexdigest e x \<noteq> []"
    and "snd (run e InitialScreening (initial_state tx u cust)) = Inr sf"
  shows "(case_id sf \<noteq> None \<longleftrightarrow> reporting_status sf = Some ''SAR_FILED'')
    \<and> (reporting_status sf = Some ''SAR_FILED''
         \<longleftrightarrow> last (fst (run e InitialScreening (initial_state tx u cust))) = GenerateSar)
    \<and> (reporting_status sf = Some ''HUMAN_REVIEW''
         \<longleftrightarrow> last (fst (run e InitialScreening (initial_state tx u cust))) = HumanReview)
    \<and> (reporting_status sf = None
         \<longleftrightarrow> last (fst (run e InitialScreening (initial_state tx u cust))) = ScoreRisk)
    \<and> (last (fst (run e InitialScreening (initial_state tx u cust))) = HumanReview \<longrightarrow>
         case_id sf = None \<and> review_status sf = Some ''PENDING''
         \<and> review_deadline sf = Some (now e (sf\<lparr>reporting_status := None, review_status := None,
              review_deadline := None\<rparr>) 0 + 24 * 3600 * 1000000))
    \<and> (n \<noteq> GenerateSar \<and> node_fn e n s = Inr s' \<longrightarrow> case_id s' = case_id s)
    \<and> store_result index (format_analysis_output sf) =
         (if reporting_status sf = Some ''SAR_FILED''
          then index(the (case_id sf) \<mapsto> format_analysis_output sf) else index)
    \<and> snd (analyze_transaction e tx cust index) = index"
proof -
  let ?vs = "fst (run e InitialScreening (initial_state tx u cust))"
  have "unreported (initial_state tx u cust)"
    by (simp add: unreported_def initial_state_def)
  from run_disposition [OF this _ assms(2)]
  have disj: "(last ?vs = GenerateSar \<and> reporting_status sf = Some ''SAR_FILED''
        \<and> (\<exists>s'. case_id sf = Some (generate_case_id e s')))
     \<or> (last ?vs = HumanReview \<and> reporting_status sf = Some ''HUMAN_REVIEW''
        \<and> case_id sf = None \<and> review_status sf = Some ''PENDING''
        \<and> review_deadline sf = Some (now e (sf\<lparr>reporting_status := None, review_status := None,
              review_deadline := None\<rparr>) 0 + 24 * 3600 * 1000000))
     \<or> (last ?vs = ScoreRisk \<and> unreported sf \<and> risk_score sf < 40)"
    by simp
  have nonempty: "generate_case_id e s0 \<noteq> []" for s0
    using assms(1) by (simp add: generate_case_id_def)
  have m1: "case_id sf \<noteq> None \<longleftrightarrow> reporting_status sf = Some ''SAR_FILED''"
    using disj by (elim disjE conjE exE) (simp_all add: unreported_def)
  have m2: "reporting_status sf = Some ''SAR_FILED'' \<longleftrightarrow> last ?vs = GenerateSar"
    using disj by (elim disjE conjE exE) (simp_all add: unreported_def)
  have m3: "reporting_status sf = Some ''HUMAN_REVIEW'' \<longleftrightarrow> last ?vs = HumanReview"
    using disj by (elim disjE conjE exE) (simp_all add: unreported_def)
  have m4: "reporting_status sf = None \<longleftrightarrow> last ?vs = ScoreRisk"
    using disj by (elim disjE conjE exE) (simp_all add: unreported_def)
  have m5: "last ?vs = HumanReview \<longrightarrow>
         case_id sf = None \<and> review_status sf = Some ''PENDING''
         \<and> review_deadline sf = Some (now e (sf\<lparr>reporting_status := None, review_status := None,
              review_deadline := None\<rparr>) 0 + 24 * 3600 * 1000000)"
    using disj by (elim disjE conjE exE) simp_all
  have frame: "n \<noteq> GenerateSar \<and> node_fn e n s = Inr s' \<longrightarrow> case_id s' = case_id s"
    using node_fn_case_id [of e n s s'] by simp
  have cid: "reporting_status sf = Some ''SAR_FILED'' \<longrightarrow> (\<exists>c. c \<noteq> [] \<and> case_id sf = Some c)"
    using disj nonempty by (elim disjE conjE exE) (simp_all add: unreported_def)
  have store: "store_result index (format_analysis_output sf) =
         (if reporting_status sf = Some ''SAR_FILED''
          then index(the (case_id sf) \<mapsto> format_analysis_output sf) else index)"
  proof (cases "reporting_status sf = Some ''SAR_FILED''")
    case True
    with cid obtain c where "c \<noteq> []" "case_id sf = Some c" by blast
    with True show ?thesis
      by (simp add: store_result_def format_analysis_output_def)
  next
    case False
    with m1 have "case_id sf = None" by simp
    with False show ?thesis
      by (simp add: store_result_def format_analysis_output_def)
  qed
  have refused: "snd (analyze_transaction e tx cust index) = index"
    by (cases "unify_transaction_data (runtime e) tx")
      (simp_all add: analyze_transaction_def run_analysis_def invoke_def ebind_def)
  show ?thesis
    by (rule conjI [OF m1 conjI [OF m2 conjI [OF m3 conjI [OF m4 conjI [OF m5
          conjI [OF frame conjI [OF store refused]]]]]]])
qed

theorem case_id_iff_sar_filed_witness:
  "(\<forall>x. sha256_hexdigest env0 x \<noteq> [])
   \<and> snd (run env0 InitialScreening (initial_state sanctioned_tx sanctioned_unified alice)) = Inr sar_final
   \<and> last (fst (run env0 InitialScreening (initial_state sanctioned_tx sanctioned_unified alice)))
       = GenerateSar
   \<and> case_id sar_final = Some ''9f86d081884c''
   \<and> reporting_status sar_final = Some ''SAR_FILED''
   \<and> store_result Map.empty (format_analysis_output sar_final)
       = [''9f86d081884c'' \<mapsto> format_analysis_output sar_final]
   \<and> snd (run env0 InitialScreening (initial_state quiet_tx quiet_unified minister_smith)) = Inr review_final
   \<and> last (fst (run env0 InitialScreening (initial_state quiet_tx quiet_unified minister_smith)))
       = HumanReview
   \<and> reporting_status review_final = Some ''HUMAN_REVIEW''
   \<and> case_id review_final = None
   \<and> review_deadline review_final = Some (1700000000000000 + 24 * 3600 * 1000000)
   \<and> store_result Map.empty (format_analysis_output review_final) = Map.empty"
proof -
  have hex: "\<forall>x. sha256_hexdigest env0 x \<noteq> []"
    by (simp add: env0_def)
  have fin: "snd (run env0 InitialScreening (initial_state sanctioned_tx sanctioned_unified alice))
      = Inr sar_final"
    by code_simp
  have cid: "case_id sar_final = Some ''9f86d081884c''"
    and st: "reporting_status sar_final = Some ''SAR_FILED''"
    by (simp_all add: sar_final_def)
  have fin2: "snd (run env0 InitialScreening (initial_state quiet_tx quiet_unified minister_smith))
      = Inr review_final"
    by code_simp
  have st2: "reporting_status review_final = Some ''HUMAN_REVIEW''"
    and dl: "review_deadline review_final = Some (1700000000000000 + 24 * 3600 * 1000000)"
    by (simp_all add: review_final_def)
  note sar = case_id_iff_sar_filed [OF hex fin, of END sar_final sar_final Map.empty]
  note rev = case_id_iff_sar_filed [OF hex fin2, of END review_final review_final Map.empty]
  from sar rev hex fin cid st fin2 st2 dl show ?thesis by simp
qed

section \<open>Structuring alerts of the behavioural analysis\<close>

lemma recent_history_typed:
  "\<forall>tx \<in> set hist. tx_time r aware cur tx \<noteq> None \<Longrightarrow>
     recent_history r (PyDatetime aware cur) (map PyDict hist) = Inr (filter (in_window r aware cur) hist)"
proof (induction hist)
  case Nil
  then show ?case by simp
next
  case (Cons tx hist)
  then obtain t where t: "tx_time r aware cur tx = Some t" by auto
  then have "ebind (to_datetime r (dict_get tx ''timestamp'' (PyDatetime aware cur)))
                (timedelta_days (PyDatetime aware cur)) = Inr ((cur - t) div (24 * 3600 * 1000000))"
    by (auto simp: tx_time_def ebind_def split: pyval.splits option.splits if_splits)
  then obtain v where v: "to_datetime r (dict_get tx ''timestamp'' (PyDatetime aware cur)) = Inr v"
    "timedelta_days (PyDatetime aware cur) v = Inr ((cur - t) div (24 * 3600 * 1000000))"
    by (auto simp: ebind_Inr)
  from Cons have IH: "recent_history r (PyDatetime aware cur) (map PyDict hist) = Inr (filter (in_window r aware cur) hist)"
    by simp
  have w: "in_window r aware cur tx = ((cur - t) div (24 * 3600 * 1000000) < 1)"
    using t by (simp add: in_window_def)
  show ?case using v IH w by (simp add: ebind_def)
qed

lemma amounts_length: "amounts_of r txs = Inr amounts \<Longrightarrow> length amounts = length txs"
  by (induction txs arbitrary: amounts) (auto simp: ebind_Inr)

lemma all_below_amounts:
  "amounts_of r txs = Inr amounts \<Longrightarrow>
     all_below_threshold r txs = Inr (\<forall>a \<in> set amounts. a < CTR_THRESHOLD)"
proof (induction txs arbitrary: amounts)
  case Nil
  then show ?case by simp
next
  case (Cons tx txs)
  then obtain a rest where a: "py_float r (dict_get tx ''amount'' (PyInt 0)) = Inr a"
    and rest: "amounts_of r txs = Inr rest" and am: "amounts = a # rest"
    by (auto simp: ebind_Inr)
  from Cons.IH [OF rest] a am show ?case by (simp add: ebind_def)
qed

lemma structuring_alerts_typed:
  assumes "amounts_of r txs = Inr amounts"
  shows "structuring_alerts r txs =
     Inr ((if length amounts > 3 \<and> (\<forall>a \<in> set amounts. a < 10000) then [''STRUCTURING_PATTERN''] else [])
        @ (if length amounts > 5 \<and> stdev amounts < 500 then [''UNIFORM_TRANSACTIONS''] else []))"
  using assms amounts_length [OF assms] all_below_amounts [OF assms]
  by (simp add: structuring_alerts_def ebind_def CTR_THRESHOLD_def stdev_lt_def)

text \<open>
  A history timestamp ending in \<open>Z\<close> parses as an offset-aware datetime; the current
  transaction has no timestamp of its own and takes the naive reading of the clock, and
  the subtraction of the two raises a TypeError.
\<close>

lemma behavioral_analysis_mixed_awareness:
  "behavioral_analysis (env0\<lparr>runtime := iso_rt\<rparr>) zulu_state = Inl TypeError"
  by code_simp

text \<open>
  C5, as the code has it.  Let the history be a list of entries whose timestamps can be
  read and are as offset-aware as the timestamp of the current transaction, \<open>cur\<close> the
  time of the current transaction, and \<open>amounts\<close> the amounts of the entries less than
  one whole day before \<open>cur\<close> followed by the current amount.  The behavioural analysis
  appends \<open>STRUCTURING_PATTERN\<close> (and sets \<open>structuring_detected\<close>) exactly when there are
  more than 3 such amounts and every one of them is below 10,000; it appends
  \<open>UNIFORM_TRANSACTIONS\<close> exactly when there are more than 5 and their sample standard
  deviation is below 500.
\<close>

theorem behavioral_analysis_flags:
  assumes cur: "to_datetime (runtime e) (dict_get (transaction state0) ''timestamp''
                  (PyDatetime False (now e (update_path state0 ''behavior_analysis'') 0))) = Inr (PyDatetime aware cur)"
    and hist: "dict_get (customer state0) ''transaction_history'' (PyList []) = PyList (map PyDict hist)"
    and times: "\<forall>tx \<in> set hist. tx_time (runtime e) aware cur tx \<noteq> None"
    and am: "amounts_of (runtime e) (filter (in_window (runtime e) aware cur) hist @ [transaction state0])
               = Inr amounts"
    and llm: "llm_codes e ''behavioral'' (update_path state0 ''behavior_analysis'') = Inr codes"
  shows "behavioral_analysis e state0 =
     Inr ((update_path state0 ''behavior_analysis'')
       \<lparr>alerts := alerts state0
           @ (if length amounts > 3 \<and> (\<forall>a \<in> set amounts. a < 10000)
              then [''STRUCTURING_PATTERN''] else [])
           @ (if length amounts > 5 \<and> stdev amounts < 500 then [''UNIFORM_TRANSACTIONS''] else []),
        risk_factors := risk_factors state0 @ codes,
        structuring_detected := (length amounts > 3 \<and> (\<forall>a \<in> set amounts. a < 10000))\<rparr>)
     \<and> length amounts = length (filter (in_window (runtime e) aware cur) hist) + 1"
proof -
  let ?state = "update_path state0 ''behavior_analysis''"
  let ?recent = "filter (in_window (runtime e) aware cur) hist @ [transaction state0]"
  have rec: "recent_txs_of e ?state = Inr ?recent"
    using cur hist recent_history_typed [OF times]
    by (simp add: recent_txs_of_def update_path_def ebind_def Let_def)
  note sa = structuring_alerts_typed [OF am]
  have len: "length amounts = length (filter (in_window (runtime e) aware cur) hist) + 1"
    using amounts_length [OF am] by simp
  have same: "alerts ?state = alerts state0" "risk_factors ?state = risk_factors state0"
    by (simp_all add: update_path_def)
  have "behavioral_analysis e state0 =
     Inr (?state
       \<lparr>alerts := alerts state0
           @ (if length amounts > 3 \<and> (\<forall>a \<in> set amounts. a < 10000)
              then [''STRUCTURING_PATTERN''] else [])
           @ (if length amounts > 5 \<and> stdev amounts < 500 then [''UNIFORM_TRANSACTIONS''] else []),
        risk_factors := risk_factors state0 @ codes,
        structuring_detected := (length amounts > 3 \<and> (\<forall>a \<in> set amounts. a < 10000))\<rparr>)"
    by (simp add: behavioral_analysis_def Let_def rec sa llm ebind_def same)
  with len show ?thesis by simp
qed

theorem behavioral_analysis_flags_witness:
  "to_datetime (runtime env0) (dict_get (transaction near_threshold_state) ''timestamp''
       (PyDatetime False (now env0 (update_path near_threshold_state ''behavior_analysis'') 0)))
     = Inr (PyDatetime False 1700000000000000)
   \<and> dict_get (customer near_threshold_state) ''transaction_history'' (PyList [])
     = PyList (map PyDict near_threshold_history)
   \<and> amounts_of (runtime env0)
        (filter (in_window (runtime env0) False 1700000000000000) near_threshold_history
           @ [transaction near_threshold_state])
     = Inr [9600, 9600, 9600, 9600]
   \<and> behavioral_analysis env0 near_threshold_state =
       Inr (near_threshold_state\<lparr>alerts := [''STRUCTURING_PATTERN''],
              decision_path := [''behavior_analysis''], structuring_detected := True\<rparr>)"
proof -
  have cur: "to_datetime (runtime env0) (dict_get (transaction near_threshold_state) ''timestamp''
       (PyDatetime False (now env0 (update_path near_threshold_state ''behavior_analysis'') 0)))
     = Inr (PyDatetime False 1700000000000000)"
    by code_simp
  have hist: "dict_get (customer near_threshold_state) ''transaction_history'' (PyList [])
     = PyList (map PyDict near_threshold_history)"
    by code_simp
  have times: "\<forall>tx \<in> set near_threshold_history. tx_time (runtime env0) False 1700000000000000 tx \<noteq> None"
    by code_simp
  have am: "amounts_of (runtime env0)
        (filter (in_window (runtime env0) False 1700000000000000) near_threshold_history
           @ [transaction near_threshold_state])
     = Inr [9600, 9600, 9600, 9600]"
    by code_simp
  have llm: "llm_codes env0 ''behavioral'' (update_path near_threshold_state ''behavior_analysis'') = Inr []"
    by (simp add: env0_def)
  have st: "alerts near_threshold_state = []" "risk_factors near_threshold_state = []"
    "decision_path near_threshold_state = []"
    by (simp_all add: near_threshold_state_def initial_state_def)
  from behavioral_analysis_flags [OF cur hist times am llm]
  have "behavioral_analysis env0 near_threshold_state =
       Inr (near_threshold_state\<lparr>alerts := [''STRUCTURING_PATTERN''],
              decision_path := [''behavior_analysis''], structuring_detected := True\<rparr>)"
    by (simp add: st update_path_def)
  with cur hist am show ?thesis by blast
qed

text \<open>
  The band of the specification fails on the code: four payments of 100 within three
  hours raise \<open>STRUCTURING_PATTERN\<close>, though none of them lies between 9,500 and 10,000.
\<close>

theorem structuring_small_payments_counterexample:
  "behavioral_analysis env0 small_payments_state = Inr small_payments_final
   \<and> structuring_detected small_payments_final
   \<and> alerts small_payments_final = [''STRUCTURING_PATTERN'']
   \<and> ebind (recent_txs_of env0 (update_path small_payments_state ''behavior_analysis''))
        (amounts_of rt0) = Inr [100, 100, 100, 100]
   \<and> \<not> spec_structuring_pattern 10000 [100, 100, 100, 100]"
proof -
  have a: "behavioral_analysis env0 small_payments_state = Inr small_payments_final"
    by code_simp
  have b: "structuring_detected small_payments_final"
    "alerts small_payments_final = [''STRUCTURING_PATTERN'']"
    by (simp_all add: small_payments_final_def)
  have c: "ebind (recent_txs_of env0 (update_path small_payments_state ''behavior_analysis''))
        (amounts_of rt0) = Inr [100, 100, 100, 100]"
    by code_simp
  have d: "\<not> spec_structuring_pattern 10000 [100, 100, 100, 100]"
    by (simp add: spec_structuring_pattern_def)
  from a b c d show ?thesis by blast
qed

section \<open>Smurfing detection\<close>

lemma group_loop_anchored:
  "group_loop r hours (first # others) groups txs =
     groups @ ((first # others @ takeWhile (\<lambda>tx. within_time_window r first tx hours) txs)
               # anchored_windows r hours (dropWhile (\<lambda>tx. within_time_window r first tx hours) txs))"
proof (induction txs arbitrary: first others groups rule: length_induct)
  case (1 txs)
  show ?case
  proof (cases txs)
    case Nil
    then show ?thesis by simp
  next
    case (Cons tx rest)
    show ?thesis
    proof (cases "within_time_window r first tx hours")
      case True
      with Cons "1.IH" [rule_format, of rest first "others @ [tx]" groups] show ?thesis by simp
    next
      case False
      have "length rest < length txs" using Cons by simp
      from "1.IH" [rule_format, OF this, of tx "[]" "groups @ [first # others]"] False Cons
      show ?thesis by simp
    qed
  qed
qed

lemma group_loop_windows: "group_loop r hours [] [] txs = anchored_windows r hours txs"
  by (cases txs) (simp_all add: group_loop_anchored)

lemma coordinated_groups_filter:
  "coordinated_groups_of r gs = Inr cgs \<Longrightarrow>
     map transactions cgs =
       filter (\<lambda>g. length g \<ge> 3 \<and> (\<exists>c. calculate_coordination_score r g = Inr c \<and> c > 0.6)) gs
     \<and> (\<forall>cg \<in> set cgs. calculate_coordination_score r (transactions cg) = Inr (coordination_score cg)
           \<and> participant_count cg = length (transactions cg))"
proof (induction gs arbitrary: cgs)
  case Nil
  then show ?case by simp
next
  case (Cons g gs)
  show ?case
  proof (cases "length g \<ge> 3")
    case False
    with Cons show ?thesis by simp
  next
    case True
    with Cons.prems obtain c rest where c: "calculate_coordination_score r g = Inr c"
      and rest: "coordinated_groups_of r gs = Inr rest"
      and cgs: "cgs = (if c > 0.6 then \<lparr>transactions = g, coordination_score = c,
                 time_window = dict_get (hd g) ''transaction_date'' (PyStr []),
                 participant_count = length g\<rparr> # rest else rest)"
      by (auto simp: ebind_Inr)
    from Cons.IH [OF rest] c cgs True show ?thesis by auto
  qed
qed

lemma coordination_score_formula:
  assumes "length g \<ge> 2" and "calculate_coordination_score r g = Inr c"
  shows "\<exists>u amounts. unique_count (map (\<lambda>tx. dict_get0 tx ''counterparty_id'') g) = Inr u
      \<and> amounts_of r g = Inr amounts
      \<and> c = 0.5 * (if u = 1 then 1 else 0) + 0.3 * (if np_var amounts < 1000 then 1 else 0)
           + 0.2 * (if length g \<ge> 3 then 1 else 0)"
proof -
  from assms obtain u amounts where u: "unique_count (map (\<lambda>tx. dict_get0 tx ''counterparty_id'') g) = Inr u"
    and am: "amounts_of r g = Inr amounts"
    and c: "c = min 1 ((if length g \<ge> 3 then (if np_var amounts < 1000 then (if u = 1 then 0.5 else 0) + 0.3
                 else (if u = 1 then 0.5 else 0)) + 0.2
                else (if np_var amounts < 1000 then (if u = 1 then 0.5 else 0) + 0.3
                 else (if u = 1 then 0.5 else 0))))"
    using amounts_length [of r g]
    by (auto simp: calculate_coordination_score_def ebind_Inr Let_def split: if_splits)
  have "c = 0.5 * (if u = 1 then 1 else 0) + 0.3 * (if np_var amounts < 1000 then 1 else 0)
           + 0.2 * (if length g \<ge> 3 then 1 else 0)"
    unfolding c by (simp split: if_splits)
  with u am show ?thesis by blast
qed

lemma concat_anchored_windows: "concat (anchored_windows r hours txs) = txs"
  by (induction r hours txs rule: anchored_windows.induct) simp_all

text \<open>
  C6, as the code has it.  When the related transactions sort by date and every window
  of at least 3 transactions can be scored: the sorted transactions are cut into
  disjoint windows, each a transaction followed by the longest run of transactions
  within the time window of that first transaction; the coordinated groups are the
  windows of at least 3 transactions whose coordination score exceeds 0.6, the score
  being 0.5 for exactly one distinct recipient plus 0.3 for an amount variance below
  1000 plus 0.2 for at least 3 transactions; the smurfing score is 0.7 times the mean
  of the coordinated scores plus 0.3 times the minimum of 1 and a third of their number
  (zero when there is none); and smurfing is detected exactly when that score exceeds
  0.7.
\<close>

theorem smurfing_detection:
  assumes srt: "sorted_transactions related = Inr sorted_txs"
    and cg: "coordinated_groups_of r (anchored_windows r hours sorted_txs) = Inr cgs"
  shows "group_by_time_window r related hours = Inr (anchored_windows r hours sorted_txs)
    \<and> concat (anchored_windows r hours sorted_txs) = sorted_txs
    \<and> coordinated_groups (detect_smurfing_patterns r td related hours) = cgs
    \<and> map transactions cgs =
        filter (\<lambda>g. length g \<ge> 3 \<and> (\<exists>c. calculate_coordination_score r g = Inr c \<and> c > 0.6))
          (anchored_windows r hours sorted_txs)
    \<and> (\<forall>cg \<in> set cgs. \<exists>u amounts.
          unique_count (map (\<lambda>tx. dict_get0 tx ''counterparty_id'') (transactions cg)) = Inr u
          \<and> amounts_of r (transactions cg) = Inr amounts
          \<and> coordination_score cg =
              0.5 * (if u = 1 then 1 else 0) + 0.3 * (if np_var amounts < 1000 then 1 else 0)
              + 0.2 * (if length (transactions cg) \<ge> 3 then 1 else 0))
    \<and> smurfing_score (detect_smurfing_patterns r td related hours) =
         (if cgs = [] then 0
          else 0.7 * mean (map coordination_score cgs) + 0.3 * min 1 (real (length cgs) / 3))
    \<and> (detected (detect_smurfing_patterns r td related hours)
         \<longleftrightarrow> smurfing_score (detect_smurfing_patterns r td related hours) > 0.7)"
proof -
  have grp: "group_by_time_window r related hours = Inr (anchored_windows r hours sorted_txs)"
    using srt by (simp add: group_by_time_window_def ebind_def group_loop_windows)
  have res: "detect_smurfing_patterns r td related hours =
      \<lparr>detected = (calculate_smurfing_score cgs > 0.7),
       smurfing_score = calculate_smurfing_score cgs, coordinated_groups = cgs, error = None\<rparr>"
    using grp cg by (simp add: detect_smurfing_patterns_def ebind_def Let_def)
  note flt = coordinated_groups_filter [OF cg]
  have members: "transactions cg \<in> set (anchored_windows r hours sorted_txs) \<and> length (transactions cg) \<ge> 3"
    if "cg \<in> set cgs" for cg
  proof -
    from that have "transactions cg \<in> set (map transactions cgs)" by simp
    with flt show ?thesis by simp
  qed
  have form: "\<exists>u amounts.
          unique_count (map (\<lambda>tx. dict_get0 tx ''counterparty_id'') (transactions cg)) = Inr u
          \<and> amounts_of r (transactions cg) = Inr amounts
          \<and> coordination_score cg =
              0.5 * (if u = 1 then 1 else 0) + 0.3 * (if np_var amounts < 1000 then 1 else 0)
              + 0.2 * (if length (transactions cg) \<ge> 3 then 1 else 0)"
    if "cg \<in> set cgs" for cg
  proof -
    from members [OF that] have "length (transactions cg) \<ge> 2" by simp
    moreover from flt that
    have "calculate_coordination_score r (transactions cg) = Inr (coordination_score cg)" by simp
    ultimately show ?thesis by (rule coordination_score_formula)
  qed
  have score: "calculate_smurfing_score cgs =
         (if cgs = [] then 0
          else 0.7 * mean (map coordination_score cgs) + 0.3 * min 1 (real (length cgs) / 3))"
    by (simp add: calculate_smurfing_score_def Let_def)
  show ?thesis
    unfolding res
    using grp concat_anchored_windows [of r hours sorted_txs] flt form score
    by (simp del: One_nat_def)
qed

theorem smurfing_detection_witness:
  "sorted_transactions two_hour_payments = Inr two_hour_sorted
   \<and> coordinated_groups_of iso_rt (anchored_windows iso_rt 24 two_hour_sorted) = Inr [two_hour_group]
   \<and> anchored_windows iso_rt 24 two_hour_sorted = [two_hour_sorted]
   \<and> smurfing_score (detect_smurfing_patterns iso_rt [] two_hour_payments 24) = 4 / 5
   \<and> detected (detect_smurfing_patterns iso_rt [] two_hour_payments 24)"
proof -
  have srt: "sorted_transactions two_hour_payments = Inr two_hour_sorted"
    by code_simp
  have cg: "coordinated_groups_of iso_rt (anchored_windows iso_rt 24 two_hour_sorted) = Inr [two_hour_group]"
    by code_simp
  have win: "anchored_windows iso_rt 24 two_hour_sorted = [two_hour_sorted]"
    by code_simp
  have sc: "coordination_score two_hour_group = 1"
    by (simp add: two_hour_group_def)
  from smurfing_detection [OF srt cg, of "[]"] srt cg win sc
  show ?thesis by (simp add: mean_def)
qed

text \<open>
  Chaining by the gap between consecutive transactions fails on the code: of three
  payments to one recipient at 0h, 20h and 40h the code puts the first two in one
  window and the third in another, and detects nothing, where chaining gives one
  window of three and a detection.
\<close>

theorem smurfing_spread_payments_counterexample:
  "group_by_time_window iso_rt spread_payments 24
     = Inr [[spread_payments ! 0, spread_payments ! 1], [spread_payments ! 2]]
   \<and> \<not> detected (detect_smurfing_patterns iso_rt [] spread_payments 24)
   \<and> spec_detect_smurfing iso_rt spread_payments 24"
proof -
  have a: "group_by_time_window iso_rt spread_payments 24
     = Inr [[spread_payments ! 0, spread_payments ! 1], [spread_payments ! 2]]"
    by code_simp
  have b: "\<not> detected (detect_smurfing_patterns iso_rt [] spread_payments 24)"
    by code_simp
  have c: "spec_detect_smurfing iso_rt spread_payments 24"
    by code_simp
  from a b c show ?thesis by blast
qed

section \<open>Failures inside a batch\<close>

lemma process_rows_results:
  "fst (process_rows investigate df (results, stats)) =
     results @ map (result_of investigate) (filter (succeeded investigate) df)"
proof (induction df arbitrary: results stats)
  case Nil
  then show ?case by simp
next
  case (Cons ir df)
  obtain idx row where ir: "ir = (idx, row)" by (cases ir)
  show ?case
  proof (cases "investigate idx row")
    case (Inl e)
    then show ?thesis using Cons.IH ir
      by (simp add: process_row_def succeeded_def)
  next
    case (Inr res)
    then show ?thesis using Cons.IH ir
      by (simp add: process_row_def succeeded_def result_of_def labelled_result_def Let_def)
  qed
qed

lemma update_stats_counts:
  "errors (update_stats stats result) = errors stats
   \<and> total_processed (update_stats stats result) = total_processed stats + 1"
  by (simp add: update_stats_def Let_def)

lemma process_rows_counts:
  "errors (snd (process_rows investigate df (results, stats)))
     = errors stats + length (filter (\<lambda>ir. \<not> succeeded investigate ir) df)
   \<and> total_processed (snd (process_rows investigate df (results, stats)))
     = total_processed stats + length (filter (succeeded investigate) df)"
proof (induction df arbitrary: results stats)
  case Nil
  then show ?case by simp
next
  case (Cons ir df)
  obtain idx row where ir: "ir = (idx, row)" by (cases ir)
  show ?case
  proof (cases "investigate idx row")
    case (Inl e)
    then show ?thesis using Cons.IH ir
      by (simp add: process_row_def succeeded_def)
  next
    case (Inr res)
    then show ?thesis using Cons.IH ir update_stats_counts
      by (simp add: process_row_def succeeded_def Let_def)
  qed
qed

lemma keys_dict_set: "map fst (dict_set d k v) = map fst d"
  by (induction d) (auto simp: dict_set_def)

lemma has_key_iff: "has_key d k \<longleftrightarrow> k \<in> set (map fst d)"
  by (simp add: has_key_def map_of_eq_None_iff)

lemma keys_dict_put: "set (map fst (dict_put d k v)) = insert k (set (map fst d))"
proof (cases "has_key d k")
  case True
  then have "k \<in> set (map fst d)" by (simp only: has_key_iff)
  with True show ?thesis
    by (simp only: dict_put_def if_True keys_dict_set insert_absorb)
next
  case False
  then show ?thesis by (simp add: dict_put_def)
qed

lemma labelled_keys:
  "has_key (labelled_result row result) ''ground_truth'' \<and> has_key (labelled_result row result) ''prediction''"
  unfolding labelled_result_def Let_def has_key_iff keys_dict_put by blast

lemma results_all_valid:
  "filter (\<lambda>r. has_key r ''ground_truth'' \<and> has_key r ''prediction'')
      (map (result_of investigate) (filter (succeeded investigate) df))
   = map (result_of investigate) (filter (succeeded investigate) df)"
proof -
  have "has_key (result_of investigate ir) ''ground_truth'' \<and> has_key (result_of investigate ir) ''prediction''"
    if "succeeded investigate ir" for ir
    using that labelled_keys
    by (cases "investigate (fst ir) (snd ir)") (simp_all add: succeeded_def result_of_def)
  then show ?thesis by (simp add: filter_id_conv)
qed

text \<open>
  C8.  \<open>_process_hi_trans_batch\<close> is a total function of the rows: no exception of a
  row ends the loop.  Its results are, in order, the labelled results of the rows whose
  investigation went through; a row whose investigation raises adds exactly one to the
  error counter and nothing else, and the error counter grows by the number of such
  rows; every other row is counted in \<open>total_processed\<close>.  The results, hence the accuracy
  metrics and all their denominators, are those of the batch with the failed rows
  removed, and \<open>total_samples\<close> is the number of rows that went through.
\<close>

theorem batch_failures_are_tallied:
  "fst (process_hi_trans_batch investigate df stats)
     = map (result_of investigate) (filter (succeeded investigate) df)
   \<and> errors (snd (process_hi_trans_batch investigate df stats))
     = errors stats + length (filter (\<lambda>ir. \<not> succeeded investigate ir) df)
   \<and> total_processed (snd (process_hi_trans_batch investigate df stats))
     = total_processed stats + length (filter (succeeded investigate) df)
   \<and> length (fst (process_hi_trans_batch investigate df stats))
       + length (filter (\<lambda>ir. \<not> succeeded investigate ir) df) = length df
   \<and> (investigate idx row = Inl e \<longrightarrow>
        process_row investigate (idx, row) (results, stats) = (results, stats\<lparr>errors := errors stats + 1\<rparr>))
   \<and> fst (process_hi_trans_batch investigate df stats)
     = fst (process_hi_trans_batch investigate (filter (succeeded investigate) df) stats)
   \<and> calculate_accuracy_metrics (fst (process_hi_trans_batch investigate df stats))
     = calculate_accuracy_metrics
         (fst (process_hi_trans_batch investigate (filter (succeeded investigate) df) stats))
   \<and> (case calculate_accuracy_metrics (fst (process_hi_trans_batch investigate df stats)) of
         None \<Rightarrow> filter (succeeded investigate) df = []
       | Some m \<Rightarrow> total_samples m = length (filter (succeeded investigate) df))"
proof -
  let ?ok = "filter (succeeded investigate) df"
  have res: "fst (process_hi_trans_batch investigate df stats) = map (result_of investigate) ?ok"
    using process_rows_results [of investigate df "[]" stats]
    by (simp add: process_hi_trans_batch_def)
  have res': "fst (process_hi_trans_batch investigate ?ok stats) = map (result_of investigate) ?ok"
    using process_rows_results [of investigate ?ok "[]" stats]
    by (simp add: process_hi_trans_batch_def)
  have cnt: "errors (snd (process_hi_trans_batch investigate df stats))
       = errors stats + length (filter (\<lambda>ir. \<not> succeeded investigate ir) df)"
    "total_processed (snd (process_hi_trans_batch investigate df stats))
       = total_processed stats + length ?ok"
    using process_rows_counts [of investigate df "[]" stats]
    by (simp_all add: process_hi_trans_batch_def)
  have len: "length (map (result_of investigate) ?ok)
       + length (filter (\<lambda>ir. \<not> succeeded investigate ir) df) = length df"
    using sum_length_filter_compl [of "succeeded investigate" df] by simp
  have row: "investigate idx row = Inl e \<longrightarrow>
        process_row investigate (idx, row) (results, stats) = (results, stats\<lparr>errors := errors stats + 1\<rparr>)"
    by (simp add: process_row_def)
  have met: "(case calculate_accuracy_metrics (map (result_of investigate) ?ok) of
         None \<Rightarrow> ?ok = []
       | Some m \<Rightarrow> total_samples m = length ?ok)"
    by (simp add: calculate_accuracy_metrics_def results_all_valid Let_def)
  show ?thesis
    unfolding res res' using cnt [unfolded res] len row met by simp
qed

theorem batch_failures_are_tallied_witness:
  "investigate0 1 (snd (three_rows ! 1)) = Inl LLMError
   \<and> length (fst (process_hi_trans_batch investigate0 three_rows zero_stats)) = 2
   \<and> errors (snd (process_hi_trans_batch investigate0 three_rows zero_stats)) = 1
   \<and> total_processed (snd (process_hi_trans_batch investigate0 three_rows zero_stats)) = 2
   \<and> map_option total_samples
        (calculate_accuracy_metrics (fst (process_hi_trans_batch investigate0 three_rows zero_stats)))
      = Some 2"
proof -
  have f: "investigate0 1 (snd (three_rows ! 1)) = Inl LLMError"
    by code_simp
  have ok: "filter (succeeded investigate0) three_rows = [three_rows ! 0, three_rows ! 2]"
    by code_simp
  have bad: "filter (\<lambda>ir. \<not> succeeded investigate0 ir) three_rows = [three_rows ! 1]"
    by code_simp
  have z: "errors zero_stats = 0" "total_processed zero_stats = 0"
    by (simp_all add: zero_stats_def)
  from batch_failures_are_tallied [of investigate0 three_rows zero_stats 1 "snd (three_rows ! 1)"
      LLMError "[]"]
  show ?thesis
    unfolding ok bad using f z by (auto split: option.splits)
qed

section \<open>The screening stages and their input\<close>

text \<open>
  What the PEP screening does to the lists that existed before the call: the list of
  risk factors of the input state grows by \<open>PEP_CUSTOMER\<close> when the customer is a PEP,
  and nothing else changes.
\<close>

lemma pep_screening_refs_store:
  assumes "a < length h"
  shows "list_at (fst (pep_screening_refs h s)) a =
     (if a = risk_factors_ref s
         \<and> check_pep_database (dict_get (customer_entries s) ''name'' (PyStr [])) = Inr True
      then list_at h a @ [PyStr ''PEP_CUSTOMER''] else list_at h a)"
proof (cases "check_pep_database (dict_get (customer_entries s) ''name'' (PyStr []))")
  case (Inl e)
  with assms show ?thesis
    by (simp add: pep_screening_refs_def update_path_refs_def new_list_def list_at_def
        nth_append Let_def)
next
  case (Inr is_pep)
  with assms show ?thesis
    by (simp add: pep_screening_refs_def update_path_refs_def new_list_def list_at_def
        list_append_def nth_append nth_list_update Let_def)
qed

text \<open>
  C9 fails on the code.  For the customer Minister Smith the PEP screening appends
  \<open>PEP_CUSTOMER\<close> to the list of risk factors of its input state, and a second call on
  the same state appends it again; the sanctions screening appends the customer's name
  and the counterparty to the \<open>parties\<close> list of the input transaction.
\<close>

theorem screening_stages_mutate_input:
  "list_at minister_store (risk_factors_ref minister_state) = [PyStr ''HIGH_RISK_IR'']
   \<and> list_at (fst (pep_screening_refs minister_store minister_state)) (risk_factors_ref minister_state)
       = [PyStr ''HIGH_RISK_IR'', PyStr ''PEP_CUSTOMER'']
   \<and> list_at (fst (pep_screening_refs (fst (pep_screening_refs minister_store minister_state))
                  minister_state)) (risk_factors_ref minister_state)
       = [PyStr ''HIGH_RISK_IR'', PyStr ''PEP_CUSTOMER'', PyStr ''PEP_CUSTOMER'']
   \<and> list_at minister_store 3 = [PyStr ''Acme Ltd'']
   \<and> list_at (fst (sanctions_screening_refs minister_store minister_state)) 3
       = [PyStr ''Acme Ltd'', PyStr ''Minister Smith'', PyStr ''Bob'']"
  by code_simp

end
